theory Spec2Isabelle
  imports Complex_Main
begin

section \<open>Documents of the store\<close>

text \<open>
  Shallow embedding of the inventory routes (\<open>routes/inventory.js\<close>), the cache service
  (\<open>services/cacheService.js\<close>), the bill service (\<open>services/billService.js\<close>) and the
  bill creation route (\<open>routes/bills.js\<close>) of the point-of-sale server.

  Conventions. A field of a request body is an \<open>option\<close>: \<open>None\<close> is JavaScript's
  \<open>undefined\<close> (the field is absent from the JSON body). Request bodies are well typed: a
  numeric field holds a number, a text field holds text. Numbers (stock quantities, money
  amounts) are exact reals: JavaScript's doubles are idealised, and \<open>NaN\<close> is written out
  where the code can produce it. An ObjectId is a natural number. A handler takes the store
  before the request and returns the store after it together with the response: \<open>Inl\<close> is
  an error response (status code and message), \<open>Inr\<close> the payload of a success response.
  \<open>now\<close> is the value of \<open>new Date()\<close>.
\<close>

type_synonym oid = nat

datatype stock_status = In_Stock | Low_Stock | Out_of_Stock

text \<open>The Inventory schema. \<open>productId\<close> is optional in a document under construction;
  the schema's \<open>required: true\<close> is enforced when the document is saved.\<close>

record inventory =
  inv_id :: oid
  productId :: "oid option"
  barcode :: "string option"
  quantity :: real
  minStock :: real
  location :: string
  warehouse :: string
  lastRestocked :: nat
  inv_notes :: "string option"
  status :: stock_status

text \<open>The Product schema (the fields the inventory routes read or write). \<open>p_stock\<close> is
  \<open>None\<close> when the field has been set to \<open>undefined\<close>.\<close>

record product =
  p_id :: oid
  p_name :: string
  p_price :: real
  p_category :: string
  p_brand :: string
  p_barcode :: "string option"
  p_stock :: "real option"

datatype http_error = HttpError nat string

text \<open>The value held under a cache key stands for its JSON text; a key maps to its time to
  live in seconds and its value.\<close>

datatype cached_json = JInventoryList "inventory list" | JProduct product

type_synonym 'v redis = "string \<rightharpoonup> nat \<times> 'v"

record db =
  inventories :: "inventory list"
  products :: "product list"
  cache :: "cached_json redis"

section \<open>JavaScript truthiness and defaulting\<close>

definition truthy_num :: "real option \<Rightarrow> bool" where
  "truthy_num x = (case x of None \<Rightarrow> False | Some n \<Rightarrow> n \<noteq> 0)"

definition truthy_str :: "string option \<Rightarrow> bool" where
  "truthy_str x = (case x of None \<Rightarrow> False | Some s \<Rightarrow> s \<noteq> [])"

text \<open>\<open>x || d\<close> for a number, for a text, and for a text with an optional default.\<close>

definition or_num :: "real option \<Rightarrow> real \<Rightarrow> real" where
  "or_num x d = (case x of None \<Rightarrow> d | Some n \<Rightarrow> if n = 0 then d else n)"

definition or_str :: "string option \<Rightarrow> string \<Rightarrow> string" where
  "or_str x d = (case x of None \<Rightarrow> d | Some s \<Rightarrow> if s = [] then d else s)"

definition or_str_opt :: "string option \<Rightarrow> string option \<Rightarrow> string option" where
  "or_str_opt x d = (if truthy_str x then x else d)"

section \<open>The document store\<close>

text \<open>A collection is the list of its documents in insertion order; \<open>findOne\<close> returns the
  first match. A new document receives an identifier that no stored document has.\<close>

definition fresh_oid :: "oid list \<Rightarrow> oid" where
  "fresh_oid ids = Suc (foldr max ids 0)"

definition Inventory_findById :: "oid \<Rightarrow> inventory list \<Rightarrow> inventory option" where
  "Inventory_findById i invs = List.find (\<lambda>r. inv_id r = i) invs"

definition Inventory_findOne_barcode :: "string \<Rightarrow> inventory list \<Rightarrow> inventory option" where
  "Inventory_findOne_barcode b invs = List.find (\<lambda>r. barcode r = Some b) invs"

definition Inventory_findOne_productId :: "oid \<Rightarrow> inventory list \<Rightarrow> inventory option" where
  "Inventory_findOne_productId p invs = List.find (\<lambda>r. productId r = Some p) invs"

definition Product_findById :: "oid option \<Rightarrow> product list \<Rightarrow> product option" where
  "Product_findById i ps =
     (case i of None \<Rightarrow> None | Some j \<Rightarrow> List.find (\<lambda>p. p_id p = j) ps)"

definition Product_findOne_barcode :: "string \<Rightarrow> product list \<Rightarrow> product option" where
  "Product_findOne_barcode b ps = List.find (\<lambda>p. p_barcode p = Some b) ps"

text \<open>\<open>inventory.save()\<close>. A new document is validated (\<open>productId\<close> is required) and
  inserted unless the unique sparse index on \<open>barcode\<close> rejects it. A stored document was
  validated when it was inserted; it is replaced, and the index is consulted only when its
  barcode was modified. \<open>None\<close> is the exception thrown by a rejected save.\<close>

definition Inventory_save :: "inventory \<Rightarrow> inventory list \<Rightarrow> inventory list option" where
  "Inventory_save r invs =
     (case Inventory_findById (inv_id r) invs of
        None \<Rightarrow>
          if productId r = None then None
          else if barcode r \<noteq> None \<and> list_ex (\<lambda>x. barcode x = barcode r) invs then None
          else Some (invs @ [r])
      | Some old \<Rightarrow>
          if barcode r \<noteq> barcode old \<and> barcode r \<noteq> None
             \<and> list_ex (\<lambda>x. inv_id x \<noteq> inv_id r \<and> barcode x = barcode r) invs
          then None
          else Some (map (\<lambda>x. if inv_id x = inv_id r then r else x) invs))"

definition category_enum :: "string list" where
  "category_enum = [''Snacks'', ''Beverages'', ''Dairy'', ''Bakery'', ''Frozen'',
     ''Household'', ''Personal Care'', ''Others'', ''Food'']"

text \<open>\<open>product.save()\<close>: a new product must have a category of the schema's enum and a
  barcode no other product has; a stored product is replaced, the unique index on
  \<open>barcode\<close> being consulted only when the barcode was modified.\<close>

definition Product_save :: "product \<Rightarrow> product list \<Rightarrow> product list option" where
  "Product_save p ps =
     (case Product_findById (Some (p_id p)) ps of
        None \<Rightarrow>
          if p_category p \<notin> set category_enum then None
          else if p_barcode p \<noteq> None \<and> list_ex (\<lambda>x. p_barcode x = p_barcode p) ps then None
          else Some (ps @ [p])
      | Some old \<Rightarrow>
          if p_barcode p \<noteq> p_barcode old \<and> p_barcode p \<noteq> None
             \<and> list_ex (\<lambda>x. p_id x \<noteq> p_id p \<and> p_barcode x = p_barcode p) ps
          then None
          else Some (map (\<lambda>x. if p_id x = p_id p then p else x) ps))"

text \<open>Lines 149-154 and 425-430: the inventory of a request is looked up by barcode when the
  barcode is truthy, else by product id when there is one.\<close>

definition find_inventory :: "string option \<Rightarrow> oid option \<Rightarrow> inventory list \<Rightarrow> inventory option" where
  "find_inventory bc pid invs =
     (if truthy_str bc then Inventory_findOne_barcode (or_str bc []) invs
      else case pid of
             Some p \<Rightarrow> Inventory_findOne_productId p invs
           | None \<Rightarrow> None)"

section \<open>POST /api/inventory\<close>

record add_body =
  a_productId :: "oid option"
  a_barcode :: "string option"
  a_quantity :: "real option"
  a_minStock :: "real option"
  a_location :: "string option"
  a_warehouse :: "string option"

text \<open>Lines 148-179: the document to save, either the stored one restocked or a new one;
  \<open>q\<close> is the (truthy) quantity of the body.\<close>

definition post_inventory_doc :: "nat \<Rightarrow> db \<Rightarrow> add_body \<Rightarrow> real \<Rightarrow> http_error + inventory" where
  "post_inventory_doc now s body q =
     (case find_inventory (a_barcode body) (a_productId body) (inventories s) of
        Some cur \<Rightarrow>
          Inr (cur\<lparr>quantity := quantity cur + q,
                   minStock := or_num (a_minStock body) (minStock cur),
                   location := or_str (a_location body) (location cur),
                   warehouse := or_str (a_warehouse body) (warehouse cur),
                   lastRestocked := now\<rparr>)
      | None \<Rightarrow>
          if a_productId body = None \<and> \<not> truthy_str (a_barcode body)
          then Inl (HttpError 400 ''Either productId or barcode is required for new inventory'')
          else Inr \<lparr>inv_id = fresh_oid (map inv_id (inventories s)),
                    productId = a_productId body,
                    barcode = a_barcode body,
                    quantity = q,
                    minStock = or_num (a_minStock body) 10,
                    location = or_str (a_location body) ''Main Store'',
                    warehouse = or_str (a_warehouse body) ''Default'',
                    lastRestocked = now,
                    inv_notes = None,
                    status = In_Stock\<rparr>)"

text \<open>Lines 181-202: the status, the product's stock and barcode, then the two saves.\<close>

definition post_inventory_persist :: "db \<Rightarrow> add_body \<Rightarrow> inventory \<Rightarrow> db \<times> (http_error + inventory)" where
  "post_inventory_persist s body inv0 =
     (let inv1 = inv0\<lparr>status :=
                   (if quantity inv0 = 0 then Out_of_Stock
                    else if quantity inv0 \<le> minStock inv0 then Low_Stock
                    else In_Stock)\<rparr>
      in
      (case
         (case Product_findById (a_productId body) (products s) of
            None \<Rightarrow> Some (products s)
          | Some p \<Rightarrow>
              Product_save (p\<lparr>p_stock := Some (quantity inv1),
                               p_barcode := or_str_opt (a_barcode body) (p_barcode p)\<rparr>)
                (products s))
       of
         None \<Rightarrow> (s, Inl (HttpError 500 ''Failed to add inventory''))
       | Some ps' \<Rightarrow>
           (case Inventory_save inv1 (inventories s) of
              None \<Rightarrow> (s\<lparr>products := ps'\<rparr>, Inl (HttpError 500 ''Failed to add inventory''))
            | Some invs' \<Rightarrow> (s\<lparr>products := ps', inventories := invs'\<rparr>, Inr inv1))))"

definition post_inventory :: "nat \<Rightarrow> db \<Rightarrow> add_body \<Rightarrow> db \<times> (http_error + inventory)" where
  "post_inventory now s body =
     (case a_quantity body of
        None \<Rightarrow> (s, Inl (HttpError 400 ''Quantity is required''))
      | Some q \<Rightarrow>
        if q = 0 then (s, Inl (HttpError 400 ''Quantity is required''))
        else if a_productId body \<noteq> None \<and> Product_findById (a_productId body) (products s) = None
        then (s, Inl (HttpError 404 ''Product not found''))
        else
          (case post_inventory_doc now s body q of
             Inl e \<Rightarrow> (s, Inl e)
           | Inr inv0 \<Rightarrow> post_inventory_persist s body inv0))"

section \<open>POST /api/inventory/register-barcode\<close>

record register_body =
  r_barcode :: "string option"
  r_name :: "string option"
  r_price :: "real option"
  r_category :: "string option"
  r_brand :: "string option"
  r_quantity :: "real option"
  r_location :: "string option"
  r_warehouse :: "string option"

text \<open>Lines 233-246: the product of the barcode, created and saved when there is none.\<close>

definition register_product :: "db \<Rightarrow> register_body \<Rightarrow> string \<Rightarrow> string \<Rightarrow> real \<Rightarrow> string
     \<Rightarrow> (product \<times> product list) option" where
  "register_product s body bc nm pr cat =
     (case Product_findOne_barcode bc (products s) of
        Some p \<Rightarrow> Some (p, products s)
      | None \<Rightarrow>
          let p = \<lparr>p_id = fresh_oid (map p_id (products s)),
                   p_name = nm, p_price = pr, p_category = cat,
                   p_brand = or_str (r_brand body) [],
                   p_barcode = Some bc,
                   p_stock = Some (or_num (r_quantity body) 0)\<rparr>
          in map_option (\<lambda>ps. (p, ps)) (Product_save p (products s)))"

text \<open>Lines 248-266: the inventory document, the stored one restocked or a new one.\<close>

definition register_doc :: "nat \<Rightarrow> db \<Rightarrow> register_body \<Rightarrow> string \<Rightarrow> product \<Rightarrow> inventory" where
  "register_doc now s body bc pdoc =
     (case Inventory_findOne_barcode bc (inventories s) of
        Some cur \<Rightarrow>
          cur\<lparr>quantity := quantity cur + or_num (r_quantity body) 0,
              location := or_str (r_location body) (location cur),
              warehouse := or_str (r_warehouse body) (warehouse cur),
              lastRestocked := now\<rparr>
      | None \<Rightarrow>
          \<lparr>inv_id = fresh_oid (map inv_id (inventories s)),
           productId = Some (p_id pdoc),
           barcode = Some bc,
           quantity = or_num (r_quantity body) 0,
           minStock = 10,
           location = or_str (r_location body) ''Main Store'',
           warehouse = or_str (r_warehouse body) ''Default'',
           lastRestocked = now,
           inv_notes = None,
           status = In_Stock\<rparr>)"

text \<open>Lines 268-290: the status, the save of the inventory, then the product's stock.\<close>

definition register_persist ::
  "db \<Rightarrow> product \<Rightarrow> product list \<Rightarrow> inventory \<Rightarrow> db \<times> (http_error + product \<times> inventory)" where
  "register_persist s pdoc ps1 inv0 =
     (let inv1 = inv0\<lparr>status :=
                   (if quantity inv0 = 0 then Out_of_Stock
                    else if quantity inv0 \<le> minStock inv0 then Low_Stock
                    else In_Stock)\<rparr>
      in
      (case Inventory_save inv1 (inventories s) of
         None \<Rightarrow> (s\<lparr>products := ps1\<rparr>, Inl (HttpError 500 ''Failed to register barcode''))
       | Some invs' \<Rightarrow>
           let pdoc' = pdoc\<lparr>p_stock := Some (quantity inv1)\<rparr> in
           (case Product_save pdoc' ps1 of
              None \<Rightarrow>
                (s\<lparr>products := ps1, inventories := invs'\<rparr>,
                 Inl (HttpError 500 ''Failed to register barcode''))
            | Some ps2 \<Rightarrow>
                (s\<lparr>products := ps2, inventories := invs'\<rparr>, Inr (pdoc', inv1)))))"

definition post_register_barcode ::
  "nat \<Rightarrow> db \<Rightarrow> register_body \<Rightarrow> db \<times> (http_error + product \<times> inventory)" where
  "post_register_barcode now s body =
     (case (r_barcode body, r_name body, r_price body, r_category body) of
        (Some bc, Some nm, Some pr, Some cat) \<Rightarrow>
          if bc = [] \<or> nm = [] \<or> pr = 0 \<or> cat = []
          then (s, Inl (HttpError 400 ''Barcode, name, price, and category are required''))
          else
            (case register_product s body bc nm pr cat of
               None \<Rightarrow> (s, Inl (HttpError 500 ''Failed to register barcode''))
             | Some (pdoc, ps1) \<Rightarrow>
                 register_persist s pdoc ps1 (register_doc now s body bc pdoc))
      | _ \<Rightarrow> (s, Inl (HttpError 400 ''Barcode, name, price, and category are required'')))"

section \<open>PUT /api/inventory/:id\<close>

record update_body =
  u_quantity :: "real option"
  u_minStock :: "real option"
  u_location :: "string option"
  u_warehouse :: "string option"
  u_notes :: "string option"

text \<open>\<open>Inventory.findByIdAndUpdate(id, {...}, {new: true})\<close>: the keys of the update whose
  value is \<open>undefined\<close> are dropped, the others are set and persisted, and the updated
  document is returned; \<open>None\<close> when no document has the identifier.\<close>

definition Inventory_findByIdAndUpdate ::
  "nat \<Rightarrow> oid \<Rightarrow> update_body \<Rightarrow> inventory list \<Rightarrow> (inventory \<times> inventory list) option" where
  "Inventory_findByIdAndUpdate now i body invs =
     (case Inventory_findById i invs of
        None \<Rightarrow> None
      | Some cur \<Rightarrow>
          let cur' = cur\<lparr>quantity := (case u_quantity body of Some q \<Rightarrow> q | None \<Rightarrow> quantity cur),
                         minStock := (case u_minStock body of Some m \<Rightarrow> m | None \<Rightarrow> minStock cur),
                         location := (case u_location body of Some l \<Rightarrow> l | None \<Rightarrow> location cur),
                         warehouse := (case u_warehouse body of Some w \<Rightarrow> w | None \<Rightarrow> warehouse cur),
                         inv_notes := (case u_notes body of Some n \<Rightarrow> Some n | None \<Rightarrow> inv_notes cur),
                         lastRestocked := now\<rparr>
          in Some (cur', map (\<lambda>x. if inv_id x = i then cur' else x) invs))"

text \<open>Lines 334-344: the product of the inventory receives the body's quantity.\<close>

definition put_inventory_mirror ::
  "db \<Rightarrow> update_body \<Rightarrow> inventory list \<Rightarrow> inventory \<Rightarrow> db \<times> (http_error + inventory)" where
  "put_inventory_mirror s body invs2 inv1 =
     (case Product_findById (productId inv1) (products s) of
        None \<Rightarrow> (s\<lparr>inventories := invs2\<rparr>, Inr inv1)
      | Some p \<Rightarrow>
          (case Product_save (p\<lparr>p_stock := u_quantity body\<rparr>) (products s) of
             None \<Rightarrow> (s\<lparr>inventories := invs2\<rparr>, Inl (HttpError 500 ''Failed to update inventory''))
           | Some ps' \<Rightarrow> (s\<lparr>inventories := invs2, products := ps'\<rparr>, Inr inv1)))"

definition put_inventory :: "nat \<Rightarrow> db \<Rightarrow> oid \<Rightarrow> update_body \<Rightarrow> db \<times> (http_error + inventory)" where
  "put_inventory now s i body =
     (case Inventory_findByIdAndUpdate now i body (inventories s) of
        None \<Rightarrow> (s, Inl (HttpError 404 ''Inventory not found''))
      | Some (inv0, invs1) \<Rightarrow>
          let inv1 = inv0\<lparr>status :=
                       (if quantity inv0 = 0 then Out_of_Stock
                        else if quantity inv0 \<le> minStock inv0 then Low_Stock
                        else In_Stock)\<rparr>
          in
          (case Inventory_save inv1 invs1 of
             None \<Rightarrow> (s\<lparr>inventories := invs1\<rparr>, Inl (HttpError 500 ''Failed to update inventory''))
           | Some invs2 \<Rightarrow> put_inventory_mirror s body invs2 inv1))"

section \<open>PUT /api/inventory/:id/adjust-quantity\<close>

text \<open>Lines 384-394: the product of the inventory receives the inventory's quantity.\<close>

definition adjust_mirror ::
  "db \<Rightarrow> inventory list \<Rightarrow> inventory \<Rightarrow> db \<times> (http_error + inventory)" where
  "adjust_mirror s invs' inv1 =
     (case Product_findById (productId inv1) (products s) of
        None \<Rightarrow> (s\<lparr>inventories := invs'\<rparr>, Inr inv1)
      | Some p \<Rightarrow>
          (case Product_save (p\<lparr>p_stock := Some (quantity inv1)\<rparr>) (products s) of
             None \<Rightarrow> (s\<lparr>inventories := invs'\<rparr>, Inl (HttpError 500 ''Failed to adjust inventory''))
           | Some ps' \<Rightarrow> (s\<lparr>inventories := invs', products := ps'\<rparr>, Inr inv1)))"

definition put_adjust_quantity ::
  "nat \<Rightarrow> db \<Rightarrow> oid \<Rightarrow> real option \<Rightarrow> db \<times> (http_error + inventory)" where
  "put_adjust_quantity now s i body_quantity =
     (case body_quantity of
        None \<Rightarrow> (s, Inl (HttpError 400 ''Quantity adjustment is required''))
      | Some q \<Rightarrow>
          (case Inventory_findById i (inventories s) of
             None \<Rightarrow> (s, Inl (HttpError 404 ''Inventory not found''))
           | Some cur \<Rightarrow>
               let inv0 = cur\<lparr>quantity := quantity cur + q, lastRestocked := now\<rparr>;
                   inv1 = inv0\<lparr>status :=
                            (if quantity inv0 = 0 then Out_of_Stock
                             else if quantity inv0 \<le> minStock inv0 then Low_Stock
                             else In_Stock)\<rparr>
               in
               (case Inventory_save inv1 (inventories s) of
                  None \<Rightarrow> (s, Inl (HttpError 500 ''Failed to adjust inventory''))
                | Some invs' \<Rightarrow> adjust_mirror s invs' inv1)))"

section \<open>POST /api/inventory/deduct-bill\<close>

text \<open>An element of \<open>billItems\<close> that is an object: \<open>{barcode, id, quantity, name}\<close>, each
  field possibly absent. An element of the array is such an object or \<open>null\<close> (\<open>None\<close>).\<close>

record bill_item =
  item_barcode :: "string option"
  item_id :: "oid option"
  item_quantity :: "real option"
  item_name :: "string option"

text \<open>\<open>item.name || barcode || id\<close>\<close>

datatype item_label = Label string | Label_id oid | Label_undefined

definition item_label :: "bill_item \<Rightarrow> item_label" where
  "item_label item =
     (if truthy_str (item_name item) then Label (or_str (item_name item) [])
      else if truthy_str (item_barcode item) then Label (or_str (item_barcode item) [])
      else case item_id item of Some i \<Rightarrow> Label_id i | None \<Rightarrow> Label_undefined)"

text \<open>The message of an item error, kept structured: the two numbers of
  \<open>Insufficient quantity. Available: a, Required: r\<close> are its arguments, and
  \<open>Exception_message\<close> is the message of an exception caught for the item.\<close>

datatype item_message =
  Inventory_item_not_found
  | Insufficient_quantity real real
  | Exception_message

record item_error =
  err_product :: item_label
  err_error :: item_message

record deducted_item =
  d_barcode :: "string option"
  d_name :: "string option"
  d_quantity :: real
  d_remainingQuantity :: real
  d_status :: stock_status

definition deducted_entry :: "bill_item \<Rightarrow> real \<Rightarrow> inventory \<Rightarrow> deducted_item" where
  "deducted_entry item q inv1 =
     \<lparr>d_barcode = barcode inv1, d_name = item_name item, d_quantity = q,
      d_remainingQuantity = quantity inv1, d_status = status inv1\<rparr>"

text \<open>Lines 464-479 and the \<open>catch\<close> of the item: the save of the inventory, the product's
  stock, and the entry pushed on \<open>deductedItems\<close>; a save that throws pushes the
  exception's message on \<open>errors\<close>.\<close>

definition deduct_persist ::
  "bill_item \<Rightarrow> real \<Rightarrow> inventory \<Rightarrow> db \<times> deducted_item list \<times> item_error list
     \<Rightarrow> db \<times> deducted_item list \<times> item_error list" where
  "deduct_persist item q inv1 acc =
     (case acc of (s, deductedItems, errors) \<Rightarrow>
        (case Inventory_save inv1 (inventories s) of
           None \<Rightarrow>
             (s, deductedItems,
              errors @ [\<lparr>err_product = item_label item, err_error = Exception_message\<rparr>])
         | Some invs' \<Rightarrow>
             (case Product_findById (productId inv1) (products s) of
                None \<Rightarrow>
                  (s\<lparr>inventories := invs'\<rparr>, deductedItems @ [deducted_entry item q inv1], errors)
              | Some p \<Rightarrow>
                  (case Product_save (p\<lparr>p_stock := Some (quantity inv1)\<rparr>) (products s) of
                     None \<Rightarrow>
                       (s\<lparr>inventories := invs'\<rparr>, deductedItems,
                        errors @ [\<lparr>err_product = item_label item, err_error = Exception_message\<rparr>])
                   | Some ps' \<Rightarrow>
                       (s\<lparr>inventories := invs', products := ps'\<rparr>,
                        deductedItems @ [deducted_entry item q inv1], errors)))))"

text \<open>The body of the \<open>for\<close> loop for an element that is an object: the item, the store, and
  the two arrays being built. For an item without a quantity the comparison
  \<open>inventory.quantity < undefined\<close> is false and the subtraction gives \<open>NaN\<close>, which
  \<open>inventory.save()\<close> refuses to cast: the exception is caught for the item and its
  message pushed on \<open>errors\<close>, nothing being saved.\<close>

definition deduct_item ::
  "nat \<Rightarrow> bill_item \<Rightarrow> db \<times> deducted_item list \<times> item_error list
     \<Rightarrow> db \<times> deducted_item list \<times> item_error list" where
  "deduct_item now item acc =
     (case acc of (s, deductedItems, errors) \<Rightarrow>
        (case find_inventory (item_barcode item) (item_id item) (inventories s) of
           None \<Rightarrow>
             (s, deductedItems,
              errors @ [\<lparr>err_product = item_label item, err_error = Inventory_item_not_found\<rparr>])
         | Some cur \<Rightarrow>
             (case item_quantity item of
                None \<Rightarrow>
                  (s, deductedItems,
                   errors @ [\<lparr>err_product = item_label item, err_error = Exception_message\<rparr>])
              | Some q \<Rightarrow>
                  if quantity cur < q
                  then (s, deductedItems,
                        errors @ [\<lparr>err_product = item_label item,
                                   err_error = Insufficient_quantity (quantity cur) q\<rparr>])
                  else
                    let inv0 = cur\<lparr>quantity := quantity cur - q\<rparr>;
                        inv1 = inv0\<lparr>status :=
                                 (if quantity inv0 = 0 then Out_of_Stock
                                  else if quantity inv0 \<le> minStock inv0 then Low_Stock
                                  else In_Stock),
                                 lastRestocked := now\<rparr>
                    in deduct_persist item q inv1 (s, deductedItems, errors))))"

text \<open>The \<open>for\<close> loop. On a \<open>null\<close> element the destructuring throws inside the \<open>try\<close> of
  the item and \<open>item.name\<close> throws again inside its \<open>catch\<close>, so the exception leaves the
  loop: the result is \<open>Inl\<close> with the store as the earlier items left it. Otherwise the
  loop ends with the store and the two arrays.\<close>

fun deduct_loop ::
  "nat \<Rightarrow> bill_item option list \<Rightarrow> db \<times> deducted_item list \<times> item_error list
     \<Rightarrow> db + db \<times> deducted_item list \<times> item_error list" where
  "deduct_loop now [] acc = Inr acc"
| "deduct_loop now (None # rest) acc = Inl (fst acc)"
| "deduct_loop now (Some item # rest) acc = deduct_loop now rest (deduct_item now item acc)"

record deduct_response =
  deductedItems :: "deducted_item list"
  errors :: "item_error list option"

text \<open>\<open>billItems\<close> is \<open>None\<close> when the body has no \<open>billItems\<close> or it is not an array. An
  exception that leaves the loop is caught by the route, which answers with status 500.\<close>

definition post_deduct_bill ::
  "nat \<Rightarrow> db \<Rightarrow> bill_item option list option \<Rightarrow> db \<times> (http_error + deduct_response)" where
  "post_deduct_bill now s billItems =
     (case billItems of
        None \<Rightarrow> (s, Inl (HttpError 400 ''billItems array is required''))
      | Some items \<Rightarrow>
          if items = [] then (s, Inl (HttpError 400 ''billItems array is required''))
          else
            (case deduct_loop now items (s, [], []) of
               Inl s' \<Rightarrow> (s', Inl (HttpError 500 ''Failed to deduct inventory for bill''))
             | Inr (s', ds, es) \<Rightarrow>
                 (s', Inr \<lparr>deductedItems = ds,
                           errors = (if length es > 0 then Some es else None)\<rparr>)))"

section \<open>The cache service (\<open>services/cacheService.js\<close>)\<close>

text \<open>The argument of a template literal \<open>`inventory:${x}`\<close>: \<open>undefined\<close>, a text, or an
  array, whose elements are given by their own \<open>toString\<close>.\<close>

datatype js_arg = Undefined | Text string | Array "string list"

fun join_comma :: "string list \<Rightarrow> string" where
  "join_comma [] = []"
| "join_comma [x] = x"
| "join_comma (x # y # ys) = x @ '','' @ join_comma (y # ys)"

definition template :: "js_arg \<Rightarrow> string" where
  "template a = (case a of Undefined \<Rightarrow> ''undefined'' | Text x \<Rightarrow> x | Array xs \<Rightarrow> join_comma xs)"

datatype js_exception = ReferenceError string | TypeError string

text \<open>The identifiers a module binds at its top level: its imports, its constants and its
  exported functions. Reading an identifier that the module does not bind throws a
  \<open>ReferenceError\<close> (no global of that name is defined by the server).\<close>

definition cacheService_scope :: "string list" where
  "cacheService_scope = [''redisClient'', ''CACHE_EXPIRY'', ''cacheProduct'', ''getCachedProduct'',
     ''cacheProductByBarcode'', ''getCachedProductByBarcode'', ''invalidateProductCache'',
     ''cacheInventory'', ''getCachedInventory'', ''invalidateInventoryCache'', ''cacheUser'',
     ''getCachedUser'', ''invalidateUserCache'', ''storeCart'', ''getCart'', ''clearCart'']"

definition billService_scope :: "string list" where
  "billService_scope = [''Bill'', ''cacheService'', ''CACHE_EXPIRY'', ''cacheBillList'',
     ''getCachedBillList'', ''cacheBill'', ''getCachedBill'', ''cacheBillByNumber'',
     ''getCachedBillByNumber'', ''cacheBillStats'', ''getCachedBillStats'',
     ''invalidateBillListCache'', ''invalidateBillCache'', ''invalidateBillByNumberCache'',
     ''invalidateBillStatsCache'', ''getBillsByDateRange'', ''calculateBillStats'',
     ''getPopularProducts'', ''exportBills'']"

definition resolve :: "string list \<Rightarrow> string \<Rightarrow> js_exception + unit" where
  "resolve scope x = (if x \<in> set scope then Inr () else Inl (ReferenceError x))"

text \<open>The client's commands. The value passed to \<open>setEx\<close> is \<open>JSON.stringify(data)\<close>: \<open>None\<close>
  when the data is \<open>undefined\<close>, and the client then throws (it accepts text only).\<close>

definition setEx :: "'v redis \<Rightarrow> string \<Rightarrow> nat \<Rightarrow> 'v option \<Rightarrow> js_exception + 'v redis" where
  "setEx r key ttl v =
     (case v of
        None \<Rightarrow> Inl (TypeError ''Invalid argument type'')
      | Some x \<Rightarrow> Inr (r(key \<mapsto> (ttl, x))))"

definition redis_get :: "'v redis \<Rightarrow> string \<Rightarrow> 'v option" where
  "redis_get r key = map_option snd (r key)"

definition redis_del :: "'v redis \<Rightarrow> string \<Rightarrow> 'v redis" where
  "redis_del r key = r(key := None)"

definition CACHE_EXPIRY_INVENTORY :: nat where
  "CACHE_EXPIRY_INVENTORY = 30 * 60"

definition cacheInventory :: "'v redis \<Rightarrow> js_arg \<Rightarrow> 'v option \<Rightarrow> 'v redis \<times> bool" where
  "cacheInventory r inventoryId inventoryData =
     (case resolve cacheService_scope ''redisClient'' of
        Inl err \<Rightarrow> (r, False)
      | Inr _ \<Rightarrow>
          (case setEx r (''inventory:'' @ template inventoryId) CACHE_EXPIRY_INVENTORY inventoryData of
             Inl err \<Rightarrow> (r, False)
           | Inr r' \<Rightarrow> (r', True)))"

definition getCachedInventory :: "'v redis \<Rightarrow> js_arg \<Rightarrow> 'v option" where
  "getCachedInventory r inventoryId =
     (case resolve cacheService_scope ''redisClient'' of
        Inl err \<Rightarrow> None
      | Inr _ \<Rightarrow> redis_get r (''inventory:'' @ template inventoryId))"

definition invalidateInventoryCache :: "'v redis \<Rightarrow> string option \<Rightarrow> 'v redis \<times> bool" where
  "invalidateInventoryCache r inventoryId =
     (case resolve cacheService_scope ''redisClient'' of
        Inl err \<Rightarrow> (r, False)
      | Inr _ \<Rightarrow>
          (redis_del
             (if truthy_str inventoryId then redis_del r (''inventory:'' @ or_str inventoryId []) else r)
             ''inventory:list'',
           True))"

section \<open>GET /api/inventory\<close>

text \<open>What the route takes from its libraries: the case-insensitive regular expression match
  of the store (\<open>$regex\<close> with \<open>$options: 'i'\<close>), its sort by warehouse and location, and
  the \<open>toString\<close> of a document.\<close>

record engine =
  regex_i :: "string \<Rightarrow> string \<Rightarrow> bool"
  sort_warehouse_location :: "inventory list \<Rightarrow> inventory list"
  doc_toString :: "inventory \<Rightarrow> string"

definition status_text :: "stock_status \<Rightarrow> string" where
  "status_text st =
     (case st of In_Stock \<Rightarrow> ''In Stock'' | Low_Stock \<Rightarrow> ''Low Stock'' | Out_of_Stock \<Rightarrow> ''Out of Stock'')"

text \<open>Lines 30-50: the query built from the filters, as a predicate on a document.\<close>

definition matches_query ::
  "engine \<Rightarrow> db \<Rightarrow> string option \<Rightarrow> string option \<Rightarrow> string option \<Rightarrow> inventory \<Rightarrow> bool" where
  "matches_query eng s wh st search r =
     ((if truthy_str wh then Some (warehouse r) = wh else True)
      \<and> (if truthy_str st then Some (status_text (status r)) = st else True)
      \<and> (if truthy_str search
          then productId r \<in> set (map (\<lambda>p. Some (p_id p))
                 (filter (\<lambda>p. regex_i eng (or_str search []) (p_name p) \<or> p_barcode p = search)
                    (products s)))
               \<or> barcode r = search
          else True))"

record list_response =
  resp_count :: "nat option"
  resp_data :: cached_json
  resp_cached :: bool

text \<open>\<open>cachedInventory.length\<close>\<close>

definition json_length :: "cached_json \<Rightarrow> nat option" where
  "json_length j = (case j of JInventoryList xs \<Rightarrow> Some (length xs) | JProduct p \<Rightarrow> None)"

definition get_inventory ::
  "engine \<Rightarrow> db \<Rightarrow> string option \<Rightarrow> string option \<Rightarrow> string option \<Rightarrow> db \<times> (http_error + list_response)" where
  "get_inventory eng s wh st search =
     (let unfiltered = (\<not> truthy_str wh \<and> \<not> truthy_str st \<and> \<not> truthy_str search) in
      case (if unfiltered then getCachedInventory (cache s) Undefined else None) of
        Some cachedInventory \<Rightarrow>
          (s, Inr \<lparr>resp_count = json_length cachedInventory, resp_data = cachedInventory,
                   resp_cached = True\<rparr>)
      | None \<Rightarrow>
          let inventory = sort_warehouse_location eng
                            (filter (matches_query eng s wh st search) (inventories s));
              cache' = (if unfiltered
                        then fst (cacheInventory (cache s) (Array (map (doc_toString eng) inventory)) None)
                        else cache s)
          in (s\<lparr>cache := cache'\<rparr>,
              Inr \<lparr>resp_count = Some (length inventory), resp_data = JInventoryList inventory,
                   resp_cached = False\<rparr>))"

section \<open>The bill service (\<open>services/billService.js\<close>)\<close>

datatype payment_method = Cash | Card | UPI | Check

datatype payment_status = Pending | Completed | Failed

record bill_line =
  l_productId :: "oid option"
  l_productName :: "string option"
  l_quantity :: "real option"
  l_unitPrice :: "real option"
  l_totalPrice :: "real option"

text \<open>A JavaScript number that may be \<open>NaN\<close>, the sum with a field that may be absent
  (\<open>x + undefined\<close> is \<open>NaN\<close>), and the quotient by a count that is not 0.\<close>

datatype js_number = Number real | NaN

definition js_add :: "js_number \<Rightarrow> real option \<Rightarrow> js_number" where
  "js_add x y =
     (case x of
        NaN \<Rightarrow> NaN
      | Number a \<Rightarrow> (case y of None \<Rightarrow> NaN | Some b \<Rightarrow> Number (a + b)))"

definition js_div :: "js_number \<Rightarrow> nat \<Rightarrow> js_number" where
  "js_div x n = (case x of NaN \<Rightarrow> NaN | Number a \<Rightarrow> Number (a / real n))"

text \<open>The Bill schema; the shop, customer and note texts, which the routes copy unchanged,
  are left out. \<open>subtotal\<close>, \<open>tax\<close> and \<open>total\<close> are numbers without a default and may
  be absent; \<open>discount\<close> and \<open>taxPercentage\<close> have a default. The payment method is
  required and one of the schema's enum. The change of a bill under construction may be
  \<open>NaN\<close>.\<close>

record bill =
  billNumber :: string
  bill_userId :: string
  bill_items :: "bill_line list"
  subtotal :: "real option"
  tax :: "real option"
  taxPercentage :: real
  discount :: real
  total :: "real option"
  paymentMethod :: payment_method
  amountReceived :: "real option"
  change :: js_number
  paymentStatus :: payment_status

definition CACHE_EXPIRY_BILL_LIST :: nat where
  "CACHE_EXPIRY_BILL_LIST = 5 * 60"

definition CACHE_EXPIRY_BILL_DETAIL :: nat where
  "CACHE_EXPIRY_BILL_DETAIL = 10 * 60"

definition CACHE_EXPIRY_BILL_STATS :: nat where
  "CACHE_EXPIRY_BILL_STATS = 1 * 60"

definition cacheBillList :: "'v redis \<Rightarrow> string \<Rightarrow> 'v option \<Rightarrow> 'v redis \<times> bool" where
  "cacheBillList r userId bills =
     (case resolve billService_scope ''redisClient'' of
        Inl err \<Rightarrow> (r, False)
      | Inr _ \<Rightarrow>
          (case setEx r (''bills:'' @ userId) CACHE_EXPIRY_BILL_LIST bills of
             Inl err \<Rightarrow> (r, False)
           | Inr r' \<Rightarrow> (r', True)))"

definition getCachedBillList :: "'v redis \<Rightarrow> string \<Rightarrow> 'v option" where
  "getCachedBillList r userId =
     (case resolve billService_scope ''redisClient'' of
        Inl err \<Rightarrow> None
      | Inr _ \<Rightarrow> redis_get r (''bills:'' @ userId))"

definition cacheBill :: "'v redis \<Rightarrow> string \<Rightarrow> 'v option \<Rightarrow> 'v redis \<times> bool" where
  "cacheBill r billId billData =
     (case resolve billService_scope ''redisClient'' of
        Inl err \<Rightarrow> (r, False)
      | Inr _ \<Rightarrow>
          (case setEx r (''bill:'' @ billId) CACHE_EXPIRY_BILL_DETAIL billData of
             Inl err \<Rightarrow> (r, False)
           | Inr r' \<Rightarrow> (r', True)))"

definition getCachedBill :: "'v redis \<Rightarrow> string \<Rightarrow> 'v option" where
  "getCachedBill r billId =
     (case resolve billService_scope ''redisClient'' of
        Inl err \<Rightarrow> None
      | Inr _ \<Rightarrow> redis_get r (''bill:'' @ billId))"

definition cacheBillByNumber :: "'v redis \<Rightarrow> string \<Rightarrow> 'v option \<Rightarrow> 'v redis \<times> bool" where
  "cacheBillByNumber r billNo billData =
     (case resolve billService_scope ''redisClient'' of
        Inl err \<Rightarrow> (r, False)
      | Inr _ \<Rightarrow>
          (case setEx r (''bill-number:'' @ billNo) CACHE_EXPIRY_BILL_DETAIL billData of
             Inl err \<Rightarrow> (r, False)
           | Inr r' \<Rightarrow> (r', True)))"

definition getCachedBillByNumber :: "'v redis \<Rightarrow> string \<Rightarrow> 'v option" where
  "getCachedBillByNumber r billNo =
     (case resolve billService_scope ''redisClient'' of
        Inl err \<Rightarrow> None
      | Inr _ \<Rightarrow> redis_get r (''bill-number:'' @ billNo))"

definition cacheBillStats :: "'v redis \<Rightarrow> string \<Rightarrow> 'v option \<Rightarrow> 'v redis \<times> bool" where
  "cacheBillStats r statsKey statsData =
     (case resolve billService_scope ''redisClient'' of
        Inl err \<Rightarrow> (r, False)
      | Inr _ \<Rightarrow>
          (case setEx r (''bill-stats:'' @ statsKey) CACHE_EXPIRY_BILL_STATS statsData of
             Inl err \<Rightarrow> (r, False)
           | Inr r' \<Rightarrow> (r', True)))"

definition getCachedBillStats :: "'v redis \<Rightarrow> string \<Rightarrow> 'v option" where
  "getCachedBillStats r statsKey =
     (case resolve billService_scope ''redisClient'' of
        Inl err \<Rightarrow> None
      | Inr _ \<Rightarrow> redis_get r (''bill-stats:'' @ statsKey))"

definition invalidateBillListCache :: "'v redis \<Rightarrow> string \<Rightarrow> 'v redis \<times> bool" where
  "invalidateBillListCache r userId =
     (case resolve billService_scope ''redisClient'' of
        Inl err \<Rightarrow> (r, False)
      | Inr _ \<Rightarrow> (redis_del r (''bills:'' @ userId), True))"

definition invalidateBillCache :: "'v redis \<Rightarrow> string \<Rightarrow> 'v redis \<times> bool" where
  "invalidateBillCache r billId =
     (case resolve billService_scope ''redisClient'' of
        Inl err \<Rightarrow> (r, False)
      | Inr _ \<Rightarrow> (redis_del r (''bill:'' @ billId), True))"

definition invalidateBillByNumberCache :: "'v redis \<Rightarrow> string \<Rightarrow> 'v redis \<times> bool" where
  "invalidateBillByNumberCache r billNo =
     (case resolve billService_scope ''redisClient'' of
        Inl err \<Rightarrow> (r, False)
      | Inr _ \<Rightarrow> (redis_del r (''bill-number:'' @ billNo), True))"

text \<open>\<open>keys('bill-stats:*')\<close> followed by \<open>del(keys)\<close>: every key with the prefix is deleted.\<close>

definition invalidateBillStatsCache :: "'v redis \<Rightarrow> 'v redis \<times> bool" where
  "invalidateBillStatsCache r =
     (case resolve billService_scope ''redisClient'' of
        Inl err \<Rightarrow> (r, False)
      | Inr _ \<Rightarrow> ((\<lambda>k. if take 11 k = ''bill-stats:'' then None else r k), True))"

subsection \<open>calculateBillStats\<close>

record stats =
  totalBills :: nat
  totalRevenue :: js_number
  totalTax :: js_number
  totalDiscount :: real
  averageBill :: js_number
  paymentMethodBreakdown :: "payment_method \<rightharpoonup> nat \<times> js_number"

text \<open>The body of the \<open>forEach\<close>: an entry \<open>{count, total}\<close> is a pair.\<close>

definition breakdown_step ::
  "(payment_method \<rightharpoonup> nat \<times> js_number) \<Rightarrow> bill \<Rightarrow> (payment_method \<rightharpoonup> nat \<times> js_number)" where
  "breakdown_step m b =
     (let m1 = (case m (paymentMethod b) of
                  None \<Rightarrow> m(paymentMethod b \<mapsto> (0, Number 0))
                | Some e \<Rightarrow> m)
      in
      case m1 (paymentMethod b) of
        None \<Rightarrow> m1
      | Some (c, t) \<Rightarrow> m1(paymentMethod b \<mapsto> (c + 1, js_add t (total b))))"

definition calculateBillStats :: "bill list \<Rightarrow> stats" where
  "calculateBillStats bs =
     (let n = length bs;
          revenue = foldl (\<lambda>sum b. js_add sum (total b)) (Number 0) bs;
          taxes = foldl (\<lambda>sum b. js_add sum (tax b)) (Number 0) bs;
          discounts = foldl (\<lambda>sum b. sum + discount b) 0 bs
      in \<lparr>totalBills = n,
          totalRevenue = revenue,
          totalTax = taxes,
          totalDiscount = discounts,
          averageBill = (if n > 0 then js_div revenue n else Number 0),
          paymentMethodBreakdown = foldl breakdown_step Map.empty bs\<rparr>)"

section \<open>POST /api/bills\<close>

definition digit_char :: "nat \<Rightarrow> char" where
  "digit_char d = char_of (48 + d)"

function decimal :: "nat \<Rightarrow> string" where
  "decimal n = (if n < 10 then [digit_char n] else decimal (n div 10) @ [digit_char (n mod 10)])"
  by pat_completeness auto
termination
  by (relation "measure id") auto

declare decimal.simps [simp del]

text \<open>\<open>'BILL-' + Date.now()\<close>\<close>

definition generateBillNumber :: "nat \<Rightarrow> string" where
  "generateBillNumber now = ''BILL-'' @ decimal now"

text \<open>The body of the request: only the items and the payment method are checked by the
  route, every other field may be absent.\<close>

record bill_body =
  bb_items :: "bill_line list option"
  bb_subtotal :: "real option"
  bb_tax :: "real option"
  bb_taxPercentage :: "real option"
  bb_discount :: "real option"
  bb_total :: "real option"
  bb_paymentMethod :: "string option"
  bb_amountReceived :: "real option"

record 'v bill_store =
  bills :: "bill list"
  bill_cache :: "'v redis"

text \<open>The enum validator of the payment method.\<close>

definition payment_enum :: "string \<Rightarrow> payment_method option" where
  "payment_enum x =
     (if x = ''Cash'' then Some Cash else if x = ''Card'' then Some Card
      else if x = ''UPI'' then Some UPI else if x = ''Check'' then Some Check else None)"

text \<open>\<open>bill.save()\<close> of a new bill whose payment method has passed the enum validator: a
  change that is \<open>NaN\<close> cannot be cast to a number and fails the validation, and the
  unique index on \<open>billNumber\<close> rejects a number that a stored bill has.\<close>

definition Bill_save :: "bill \<Rightarrow> bill list \<Rightarrow> bill list option" where
  "Bill_save b bs =
     (if change b = NaN then None
      else if list_ex (\<lambda>x. billNumber x = billNumber b) bs then None
      else Some (bs @ [b]))"

definition post_bill ::
  "nat \<Rightarrow> string \<Rightarrow> 'v bill_store \<Rightarrow> bill_body \<Rightarrow> 'v bill_store \<times> (http_error + bill)" where
  "post_bill now user_id s body =
     (case bb_items body of
        None \<Rightarrow> (s, Inl (HttpError 400 ''Bill must have at least one item''))
      | Some items \<Rightarrow>
          if items = [] then (s, Inl (HttpError 400 ''Bill must have at least one item''))
          else if \<not> truthy_str (bb_paymentMethod body)
          then (s, Inl (HttpError 400 ''Payment method is required''))
          else
            let billNo = generateBillNumber now;
                chg = (case bb_amountReceived body of
                         None \<Rightarrow> Number 0
                       | Some a \<Rightarrow>
                           if a = 0 then Number 0
                           else (case bb_total body of
                                   None \<Rightarrow> NaN
                                 | Some t \<Rightarrow> Number (a - t)))
            in
            (case payment_enum (or_str (bb_paymentMethod body) []) of
               None \<Rightarrow> (s, Inl (HttpError 500 ''Failed to create bill''))
             | Some pm \<Rightarrow>
                 let b = \<lparr>billNumber = billNo, bill_userId = user_id, bill_items = items,
                          subtotal = bb_subtotal body, tax = bb_tax body,
                          taxPercentage = (case bb_taxPercentage body of None \<Rightarrow> 5 | Some x \<Rightarrow> x),
                          discount = (case bb_discount body of None \<Rightarrow> 0 | Some d \<Rightarrow> d),
                          total = bb_total body,
                          paymentMethod = pm, amountReceived = bb_amountReceived body,
                          change = chg, paymentStatus = Completed\<rparr>
                 in
                 (case Bill_save b (bills s) of
                    None \<Rightarrow> (s, Inl (HttpError 500 ''Failed to create bill''))
                  | Some bs' \<Rightarrow>
                      let c1 = fst (invalidateBillListCache (bill_cache s) user_id);
                          c2 = fst (invalidateBillStatsCache c1)
                      in (s\<lparr>bills := bs', bill_cache := c2\<rparr>, Inr b))))"

section \<open>Sequences of inventory requests\<close>

datatype request =
  Post_inventory add_body
  | Post_register_barcode register_body
  | Put_inventory oid update_body
  | Put_adjust_quantity oid "real option"
  | Post_deduct_bill "bill_item option list option"

definition handle :: "db \<Rightarrow> nat \<times> request \<Rightarrow> db" where
  "handle s tr =
     (case tr of (now, req) \<Rightarrow>
        (case req of
           Post_inventory body \<Rightarrow> fst (post_inventory now s body)
         | Post_register_barcode body \<Rightarrow> fst (post_register_barcode now s body)
         | Put_inventory i body \<Rightarrow> fst (put_inventory now s i body)
         | Put_adjust_quantity i q \<Rightarrow> fst (put_adjust_quantity now s i q)
         | Post_deduct_bill items \<Rightarrow> fst (post_deduct_bill now s items)))"

definition run :: "db \<Rightarrow> (nat \<times> request) list \<Rightarrow> db" where
  "run s trs = foldl handle s trs"

section \<open>Notions of the specification\<close>

text \<open>The definitions of this section follow the words of the specification; the theorems
  compare the routes with them.\<close>

text \<open>The derivation of the status in the words of the specification, and the document whose
  status is the derived one.\<close>

definition deriveStatus :: "real \<Rightarrow> real \<Rightarrow> stock_status" where
  "deriveStatus q m = (if q = 0 then Out_of_Stock else if q \<le> m then Low_Stock else In_Stock)"

definition status_ok :: "inventory \<Rightarrow> bool" where
  "status_ok r = (status r = deriveStatus (quantity r) (minStock r))"

text \<open>The documents of the inventory collection after a request that the collection did not
  hold before it: the documents the request has written.\<close>

definition written :: "db \<Rightarrow> db \<Rightarrow> inventory list" where
  "written s s' = filter (\<lambda>r. r \<notin> set (inventories s)) (inventories s')"

text \<open>A success response returns a document that the collection holds and whose status is the
  derived one.\<close>

definition returned_ok :: "db \<times> (http_error + inventory) \<Rightarrow> bool" where
  "returned_ok res =
     (case snd res of Inl e \<Rightarrow> True | Inr r \<Rightarrow> r \<in> set (inventories (fst res)) \<and> status_ok r)"

text \<open>The invariant of an inventory document that the routes keep, and the invariant as the
  specification states it, which also asks for a quantity that is an integer and not
  negative.\<close>

definition status_invariant :: "inventory \<Rightarrow> bool" where
  "status_invariant r =
     ((status r = Out_of_Stock) = (quantity r = 0)
      \<and> (status r = Low_Stock) = (quantity r \<noteq> 0 \<and> quantity r \<le> minStock r)
      \<and> (status r = In_Stock) = (quantity r \<noteq> 0 \<and> minStock r < quantity r))"

definition stated_invariant :: "inventory \<Rightarrow> bool" where
  "stated_invariant r =
     (quantity r \<in> \<int> \<and> 0 \<le> quantity r
      \<and> (status r = Out_of_Stock) = (quantity r = 0)
      \<and> (status r = Low_Stock) = (0 < quantity r \<and> quantity r \<le> minStock r)
      \<and> (status r = In_Stock) = (quantity r \<noteq> 0 \<and> \<not> (0 < quantity r \<and> quantity r \<le> minStock r)))"

text \<open>Identifiers are unique in a collection of the store; a collection with the document of an
  identifier replaced.\<close>

definition ids_distinct :: "db \<Rightarrow> bool" where
  "ids_distinct s = distinct (map inv_id (inventories s))"

definition replace_doc :: "inventory \<Rightarrow> inventory list \<Rightarrow> inventory list" where
  "replace_doc r invs = map (\<lambda>x. if inv_id x = inv_id r then r else x) invs"

text \<open>A stored document after the deduction of the quantity \<open>q\<close>.\<close>

definition decremented :: "nat \<Rightarrow> real \<Rightarrow> inventory \<Rightarrow> inventory" where
  "decremented now q cur =
     cur\<lparr>quantity := quantity cur - q,
         status := deriveStatus (quantity cur - q) (minStock cur),
         lastRestocked := now\<rparr>"

text \<open>The store that the loop of the bill deduction leaves, whether it ends or is left by an
  exception.\<close>

definition loop_store :: "db + db \<times> deducted_item list \<times> item_error list \<Rightarrow> db" where
  "loop_store r = (case r of Inl s \<Rightarrow> s | Inr acc \<Rightarrow> fst acc)"

text \<open>The \<open>errors\<close> of a response as a list: the field is left out when there is none.\<close>

definition error_list :: "deduct_response \<Rightarrow> item_error list" where
  "error_list resp = (case errors resp of None \<Rightarrow> [] | Some es \<Rightarrow> es)"

text \<open>The conditions under which the saves of \<open>POST /api/inventory\<close> pass: the product named by
  the body exists, and the barcode the product receives is its own or that of no other
  product (the unique index of the product collection).\<close>

definition product_known :: "db \<Rightarrow> add_body \<Rightarrow> bool" where
  "product_known s body =
     (a_productId body = None \<or> Product_findById (a_productId body) (products s) \<noteq> None)"

definition barcode_free :: "db \<Rightarrow> add_body \<Rightarrow> bool" where
  "barcode_free s body =
     (case Product_findById (a_productId body) (products s) of
        None \<Rightarrow> True
      | Some p \<Rightarrow>
          or_str_opt (a_barcode body) (p_barcode p) = p_barcode p
          \<or> \<not> list_ex (\<lambda>x. p_id x \<noteq> p_id p \<and> p_barcode x = or_str_opt (a_barcode body) (p_barcode p))
                 (products s))"

text \<open>The documents that \<open>POST /api/inventory\<close> saves, a stored one restocked or a new one, and
  the product collection with the product of the body updated.\<close>

definition restocked :: "nat \<Rightarrow> add_body \<Rightarrow> real \<Rightarrow> inventory \<Rightarrow> inventory" where
  "restocked now body q cur =
     cur\<lparr>quantity := quantity cur + q,
         minStock := or_num (a_minStock body) (minStock cur),
         location := or_str (a_location body) (location cur),
         warehouse := or_str (a_warehouse body) (warehouse cur),
         lastRestocked := now,
         status := deriveStatus (quantity cur + q) (or_num (a_minStock body) (minStock cur))\<rparr>"

definition created :: "nat \<Rightarrow> db \<Rightarrow> add_body \<Rightarrow> real \<Rightarrow> inventory" where
  "created now s body q =
     \<lparr>inv_id = fresh_oid (map inv_id (inventories s)),
      productId = a_productId body,
      barcode = a_barcode body,
      quantity = q,
      minStock = or_num (a_minStock body) 10,
      location = or_str (a_location body) ''Main Store'',
      warehouse = or_str (a_warehouse body) ''Default'',
      lastRestocked = now,
      inv_notes = None,
      status = deriveStatus q (or_num (a_minStock body) 10)\<rparr>"

definition mirrored :: "add_body \<Rightarrow> real \<Rightarrow> product list \<Rightarrow> product list" where
  "mirrored body n ps =
     (case Product_findById (a_productId body) ps of
        None \<Rightarrow> ps
      | Some p \<Rightarrow>
          map (\<lambda>x. if p_id x = p_id p
                    then p\<lparr>p_stock := Some n, p_barcode := or_str_opt (a_barcode body) (p_barcode p)\<rparr>
                    else x) ps)"

text \<open>The bill that \<open>POST /api/bills\<close> builds from a body whose items and payment method
  are given.\<close>

definition created_bill :: "nat \<Rightarrow> string \<Rightarrow> bill_body \<Rightarrow> bill_line list \<Rightarrow> payment_method \<Rightarrow> bill" where
  "created_bill now user_id body items pm =
     \<lparr>billNumber = generateBillNumber now, bill_userId = user_id, bill_items = items,
      subtotal = bb_subtotal body, tax = bb_tax body,
      taxPercentage = (case bb_taxPercentage body of None \<Rightarrow> 5 | Some x \<Rightarrow> x),
      discount = (case bb_discount body of None \<Rightarrow> 0 | Some d \<Rightarrow> d),
      total = bb_total body,
      paymentMethod = pm, amountReceived = bb_amountReceived body,
      change = (case bb_amountReceived body of
                  None \<Rightarrow> Number 0
                | Some a \<Rightarrow>
                    if a = 0 then Number 0
                    else (case bb_total body of None \<Rightarrow> NaN | Some t \<Rightarrow> Number (a - t))),
      paymentStatus = Completed\<rparr>"

text \<open>The total and the tax of a bill as summands, 0 standing for an absent field; they are
  used for lists in which every bill has the field.\<close>

definition total_of :: "bill \<Rightarrow> real" where
  "total_of b = (case total b of None \<Rightarrow> 0 | Some t \<Rightarrow> t)"

definition tax_of :: "bill \<Rightarrow> real" where
  "tax_of b = (case tax b of None \<Rightarrow> 0 | Some t \<Rightarrow> t)"

definition has_total :: "bill \<Rightarrow> bool" where
  "has_total b = (total b \<noteq> None)"

definition has_tax :: "bill \<Rightarrow> bool" where
  "has_tax b = (tax b \<noteq> None)"

section \<open>Example data\<close>

text \<open>The empty store, and the store after the tea has been registered with three units
  (\<open>tea_register\<close> at time 1).\<close>

definition empty_db :: db where
  "empty_db = \<lparr>inventories = [], products = [], cache = Map.empty\<rparr>"

definition tea_register :: register_body where
  "tea_register = \<lparr>r_barcode = Some ''8901'', r_name = Some ''Tea'', r_price = Some 2,
     r_category = Some ''Food'', r_brand = None, r_quantity = Some 3, r_location = None,
     r_warehouse = None\<rparr>"

definition tea_inventory :: inventory where
  "tea_inventory = \<lparr>inv_id = 1, productId = Some 1, barcode = Some ''8901'', quantity = 3,
     minStock = 10, location = ''Main Store'', warehouse = ''Default'', lastRestocked = 1,
     inv_notes = None, status = Low_Stock\<rparr>"

definition tea_product :: product where
  "tea_product = \<lparr>p_id = 1, p_name = ''Tea'', p_price = 2, p_category = ''Food'', p_brand = [],
     p_barcode = Some ''8901'', p_stock = Some 3\<rparr>"

definition tea_db :: db where
  "tea_db = \<lparr>inventories = [tea_inventory], products = [tea_product], cache = Map.empty\<rparr>"

text \<open>Items of a bill for the tea store: two teas, five teas, tea without a quantity, and a
  barcode the store does not have.\<close>

definition item_ok :: bill_item where
  "item_ok = \<lparr>item_barcode = Some ''8901'', item_id = None, item_quantity = Some 2, item_name = Some ''Tea''\<rparr>"

definition item_much :: bill_item where
  "item_much = \<lparr>item_barcode = Some ''8901'', item_id = None, item_quantity = Some 5, item_name = None\<rparr>"

definition item_unquantified :: bill_item where
  "item_unquantified = \<lparr>item_barcode = Some ''8901'', item_id = None, item_quantity = None,
     item_name = Some ''Tea''\<rparr>"

definition item_missing :: bill_item where
  "item_missing = \<lparr>item_barcode = Some ''0000'', item_id = None, item_quantity = Some 1, item_name = Some ''Salt''\<rparr>"

text \<open>Three units registered, then an adjustment by \<open>-5\<close>; the same with an adjustment by
  one half.\<close>

definition tea_requests :: "(nat \<times> request) list" where
  "tea_requests = [(1, Post_register_barcode tea_register), (2, Put_adjust_quantity 1 (Some (- 5)))]"

definition half_requests :: "(nat \<times> request) list" where
  "half_requests = [(1, Post_register_barcode tea_register), (2, Put_adjust_quantity 1 (Some (1 / 2)))]"

text \<open>The tea store with the product cached by barcode, as \<open>GET /api/products/barcode/:barcode\<close>
  leaves it (24 hours to live).\<close>

definition tea_cached_db :: db where
  "tea_cached_db = tea_db\<lparr>cache := [''barcode:8901'' \<mapsto> (86400, JProduct tea_product)]\<rparr>"

text \<open>Bodies of \<open>POST /api/inventory\<close> for the tea store, and a store with the tea product and
  no inventory.\<close>

definition restock_body :: add_body where
  "restock_body = \<lparr>a_productId = Some 1, a_barcode = Some ''8901'', a_quantity = Some 5,
     a_minStock = Some 2, a_location = None, a_warehouse = Some ''East''\<rparr>"

definition zero_quantity_body :: add_body where
  "zero_quantity_body = \<lparr>a_productId = None, a_barcode = Some ''8901'', a_quantity = Some 0,
     a_minStock = None, a_location = Some ''Shelf 2'', a_warehouse = None\<rparr>"

definition zero_minStock_body :: add_body where
  "zero_minStock_body = \<lparr>a_productId = None, a_barcode = Some ''8901'', a_quantity = Some 5,
     a_minStock = Some 0, a_location = None, a_warehouse = None\<rparr>"

definition barcode_only_body :: add_body where
  "barcode_only_body = \<lparr>a_productId = None, a_barcode = Some ''8901'', a_quantity = Some 5,
     a_minStock = None, a_location = None, a_warehouse = None\<rparr>"

definition catalog_db :: db where
  "catalog_db = \<lparr>inventories = [], products = [tea_product], cache = Map.empty\<rparr>"

text \<open>A body of \<open>PUT /api/inventory/:id\<close> that moves an inventory and has no quantity.\<close>

definition relocate_body :: update_body where
  "relocate_body = \<lparr>u_quantity = None, u_minStock = None, u_location = Some ''Shelf 2'',
     u_warehouse = None, u_notes = None\<rparr>"

text \<open>An engine for the examples: no name matches a search, the sort keeps the order, and a
  document prints as \<open>[object Object]\<close>.\<close>

definition plain_engine :: engine where
  "plain_engine = \<lparr>regex_i = (\<lambda>pat txt. False), sort_warehouse_location = (\<lambda>xs. xs),
     doc_toString = (\<lambda>r. ''[object Object]'')\<rparr>"

text \<open>Example data for the bills: an empty store, a line of two teas, a body paid in cash,
  and a body with the items and the payment method only.\<close>

definition no_bills :: "unit bill_store" where
  "no_bills = \<lparr>bills = [], bill_cache = Map.empty\<rparr>"

definition tea_line :: bill_line where
  "tea_line = \<lparr>l_productId = Some 1, l_productName = Some ''Tea'', l_quantity = Some 2,
        l_unitPrice = Some 2, l_totalPrice = Some 4\<rparr>"

definition cash_body :: bill_body where
  "cash_body = \<lparr>bb_items = Some [tea_line],
     bb_subtotal = Some 4, bb_tax = Some 1, bb_taxPercentage = None, bb_discount = Some 0,
     bb_total = Some 5, bb_paymentMethod = Some ''Cash'', bb_amountReceived = Some 10\<rparr>"

definition untotalled_body :: bill_body where
  "untotalled_body = \<lparr>bb_items = Some [tea_line],
     bb_subtotal = None, bb_tax = None, bb_taxPercentage = None, bb_discount = None,
     bb_total = None, bb_paymentMethod = Some ''Cash'', bb_amountReceived = None\<rparr>"

definition cash_bill :: "nat \<Rightarrow> bill" where
  "cash_bill now = created_bill now ''u1'' cash_body [tea_line] Cash"

definition untotalled_bill :: "nat \<Rightarrow> bill" where
  "untotalled_bill now = created_bill now ''u1'' untotalled_body [tea_line] Cash"

section \<open>Properties of the store primitives\<close>

lemma find_Some_id: "List.find P xs = Some x \<Longrightarrow> x \<in> set xs \<and> P x"
  by (induction xs) (auto split: if_splits)

lemma Inventory_save_subset:
  "Inventory_save r invs = Some invs' \<Longrightarrow>
     set invs' \<subseteq> insert r {x \<in> set invs. inv_id x \<noteq> inv_id r}"
  by (auto simp: Inventory_save_def Inventory_findById_def find_None_iff
           split: option.splits if_splits)

lemma Inventory_save_mem:
  "Inventory_save r invs = Some invs' \<Longrightarrow> r \<in> set invs'"
  by (auto simp: Inventory_save_def Inventory_findById_def
           split: option.splits if_splits dest!: find_Some_id)

lemma save_new:
  "Inventory_save r invs = Some invs' \<Longrightarrow> x \<in> set invs' \<Longrightarrow> x \<notin> set invs \<Longrightarrow> x = r"
  using Inventory_save_subset by fastforce

lemma save_same_barcode:
  "Inventory_findById (inv_id r) invs = Some old \<Longrightarrow> barcode r = barcode old \<Longrightarrow>
     Inventory_save r invs = Some (map (\<lambda>x. if inv_id x = inv_id r then r else x) invs)"
  by (simp add: Inventory_save_def)

lemma findByIdAndUpdate_subset:
  "Inventory_findByIdAndUpdate now i body invs = Some (r0, invs1) \<Longrightarrow>
     inv_id r0 = i \<and> {x \<in> set invs1. inv_id x \<noteq> i} \<subseteq> set invs"
  by (auto simp: Inventory_findByIdAndUpdate_def Inventory_findById_def Let_def
           split: option.splits if_splits dest!: find_Some_id)

lemma find_replace:
  "List.find (\<lambda>r. inv_id r = i) xs = Some y \<Longrightarrow> inv_id y' = i \<Longrightarrow>
     List.find (\<lambda>r. inv_id r = i) (map (\<lambda>x. if inv_id x = i then y' else x) xs) = Some y'"
  by (induction xs) (auto split: if_splits)

lemma findByIdAndUpdate_find:
  assumes "Inventory_findByIdAndUpdate now i body invs = Some (r0, invs1)"
  shows "Inventory_findById i invs1 = Some r0"
proof -
  obtain cur where cur: "Inventory_findById i invs = Some cur"
    using assms by (auto simp: Inventory_findByIdAndUpdate_def split: option.splits)
  have "inv_id cur = i"
    using cur by (auto simp: Inventory_findById_def dest: find_Some_id)
  with cur assms show ?thesis
    by (auto simp: Inventory_findByIdAndUpdate_def Inventory_findById_def Let_def
             intro!: find_replace)
qed

section \<open>The status written with a quantity\<close>

lemma inline_status:
  "(if q = 0 then Out_of_Stock else if q \<le> m then Low_Stock else In_Stock) = deriveStatus q m"
  by (simp add: deriveStatus_def)

lemma post_inventory_persist_inv:
  "set (inventories (fst (post_inventory_persist s body r0))) \<subseteq> set (inventories s) \<union> Collect status_ok"
  unfolding post_inventory_persist_def Let_def inline_status
  by (auto simp: status_ok_def split: option.split dest: save_new)

lemma post_inventory_inv:
  "set (inventories (fst (post_inventory now s body))) \<subseteq> set (inventories s) \<union> Collect status_ok"
  unfolding post_inventory_def using post_inventory_persist_inv
  by (auto split: option.split sum.split)

lemma register_persist_inv:
  "set (inventories (fst (register_persist s pdoc ps1 r0))) \<subseteq> set (inventories s) \<union> Collect status_ok"
  unfolding register_persist_def Let_def inline_status
  by (auto simp: status_ok_def split: option.split dest: save_new)

lemma post_register_barcode_inv:
  "set (inventories (fst (post_register_barcode now s body))) \<subseteq> set (inventories s) \<union> Collect status_ok"
  unfolding post_register_barcode_def using register_persist_inv
  by (auto split: option.split prod.split)

lemma put_inventory_mirror_inv:
  "inventories (fst (put_inventory_mirror s body invs2 r1)) = invs2"
  unfolding put_inventory_mirror_def by (simp split: option.split)

lemma adjust_mirror_inv:
  "inventories (fst (adjust_mirror s invs2 r1)) = invs2"
  unfolding adjust_mirror_def by (simp split: option.split)

lemma put_adjust_quantity_inv:
  "set (inventories (fst (put_adjust_quantity now s i q))) \<subseteq> set (inventories s) \<union> Collect status_ok"
  unfolding put_adjust_quantity_def Let_def inline_status
  by (auto simp: adjust_mirror_inv status_ok_def split: option.split dest: save_new)

lemma put_inventory_inv:
  "set (inventories (fst (put_inventory now s i body))) \<subseteq> set (inventories s) \<union> Collect status_ok"
proof (cases "Inventory_findByIdAndUpdate now i body (inventories s)")
  case None
  then show ?thesis by (simp add: put_inventory_def)
next
  case (Some a)
  obtain r0 invs1 where a: "a = (r0, invs1)" by (cases a)
  note upd = Some[unfolded a]
  define r1 where "r1 = r0\<lparr>status := deriveStatus (quantity r0) (minStock r0)\<rparr>"
  have ok: "status_ok r1" and id1: "inv_id r1 = i"
    using findByIdAndUpdate_subset[OF upd] by (simp_all add: r1_def status_ok_def)
  have sub: "{x \<in> set invs1. inv_id x \<noteq> i} \<subseteq> set (inventories s)"
    using findByIdAndUpdate_subset[OF upd] by simp
  have "Inventory_findById (inv_id r1) invs1 = Some r0"
    using findByIdAndUpdate_find[OF upd] id1 by simp
  moreover have "barcode r1 = barcode r0" by (simp add: r1_def)
  ultimately have sv: "Inventory_save r1 invs1 = Some (map (\<lambda>x. if inv_id x = inv_id r1 then r1 else x) invs1)"
    by (rule save_same_barcode)
  have "set (map (\<lambda>x. if inv_id x = inv_id r1 then r1 else x) invs1)
          \<subseteq> insert r1 {x \<in> set invs1. inv_id x \<noteq> i}"
    using Inventory_save_subset[OF sv] id1 by simp
  with sub ok have "set (map (\<lambda>x. if inv_id x = inv_id r1 then r1 else x) invs1)
          \<subseteq> set (inventories s) \<union> Collect status_ok" by auto
  then show ?thesis
    using upd sv
    by (simp add: put_inventory_def Let_def inline_status r1_def[symmetric] put_inventory_mirror_inv)
qed

lemma deduct_persist_inv:
  "status_ok r1 \<Longrightarrow> set (inventories (fst (deduct_persist item q r1 (s, ds, es))))
      \<subseteq> set (inventories s) \<union> Collect status_ok"
  unfolding deduct_persist_def
  by (auto split: option.split dest: save_new)

lemma deduct_item_inv:
  "set (inventories (fst (deduct_item now item (s, ds, es)))) \<subseteq> set (inventories s) \<union> Collect status_ok"
proof (cases "find_inventory (item_barcode item) (item_id item) (inventories s)")
  case None
  then show ?thesis by (simp add: deduct_item_def)
next
  case (Some cur)
  show ?thesis
  proof (cases "item_quantity item")
    case None
    with Some show ?thesis by (simp add: deduct_item_def)
  next
    case q: (Some q)
    show ?thesis
    proof (cases "quantity cur < q")
      case True
      with Some q show ?thesis by (simp add: deduct_item_def)
    next
      case False
      define r1 where "r1 = cur\<lparr>quantity := quantity cur - q,
          status := deriveStatus (quantity cur - q) (minStock cur),
          lastRestocked := now\<rparr>"
      have ok: "status_ok r1" by (simp add: r1_def status_ok_def)
      have "deduct_item now item (s, ds, es) = deduct_persist item q r1 (s, ds, es)"
        using Some q False by (simp add: deduct_item_def Let_def inline_status r1_def)
      then show ?thesis using deduct_persist_inv[OF ok] by simp
    qed
  qed
qed

lemma post_deduct_bill_store:
  "fst (post_deduct_bill now s (Some items)) = loop_store (deduct_loop now items (s, [], []))"
  by (cases "deduct_loop now items (s, [], [])")
     (auto simp: post_deduct_bill_def loop_store_def)

lemma deduct_loop_inv:
  "set (inventories (loop_store (deduct_loop now items acc)))
     \<subseteq> set (inventories (fst acc)) \<union> Collect status_ok"
proof (induction now items acc rule: deduct_loop.induct)
  case (1 now acc)
  then show ?case by (simp add: loop_store_def)
next
  case (2 now rest acc)
  then show ?case by (simp add: loop_store_def)
next
  case (3 now item rest acc)
  obtain s ds es where acc: "acc = (s, ds, es)" by (cases acc)
  have "set (inventories (fst (deduct_item now item acc))) \<subseteq> set (inventories (fst acc)) \<union> Collect status_ok"
    unfolding acc using deduct_item_inv by simp
  with "3.IH" show ?case by auto
qed

lemma post_deduct_bill_inv:
  "set (inventories (fst (post_deduct_bill now s items))) \<subseteq> set (inventories s) \<union> Collect status_ok"
proof (cases items)
  case None
  then show ?thesis by (simp add: post_deduct_bill_def)
next
  case (Some xs)
  show ?thesis unfolding Some post_deduct_bill_store
    using deduct_loop_inv[of now xs "(s, [], [])"] by simp
qed

lemma written_ok:
  "set (inventories s') \<subseteq> set (inventories s) \<union> Collect status_ok \<Longrightarrow> list_all status_ok (written s s')"
  by (auto simp: written_def list_all_iff)

lemma post_inventory_returned: "returned_ok (post_inventory now s body)"
  unfolding returned_ok_def post_inventory_def post_inventory_persist_def Let_def inline_status
  by (auto simp: status_ok_def split: option.split sum.split dest: Inventory_save_mem)

lemma put_adjust_returned: "returned_ok (put_adjust_quantity now s i q)"
  unfolding returned_ok_def put_adjust_quantity_def adjust_mirror_def Let_def inline_status
  by (auto simp: status_ok_def split: option.split sum.split dest: Inventory_save_mem)

lemma put_inventory_returned: "returned_ok (put_inventory now s i body)"
  unfolding returned_ok_def put_inventory_def put_inventory_mirror_def Let_def inline_status
  by (auto simp: status_ok_def split: option.split sum.split dest: Inventory_save_mem)

lemma tea_db_eq: "fst (post_register_barcode 1 empty_db tea_register) = tea_db"
  by (simp add: post_register_barcode_def tea_register_def empty_db_def register_product_def
      Product_findOne_barcode_def Product_save_def Product_findById_def fresh_oid_def or_str_def or_num_def
      category_enum_def register_doc_def Inventory_findOne_barcode_def register_persist_def Let_def
      Inventory_save_def Inventory_findById_def tea_db_def tea_inventory_def tea_product_def)

lemma tea_adjust:
  "put_adjust_quantity 2 tea_db 1 (Some (- 5)) =
     (tea_db\<lparr>inventories := [tea_inventory\<lparr>quantity := - 2, lastRestocked := 2\<rparr>],
             products := [tea_product\<lparr>p_stock := Some (- 2)\<rparr>]\<rparr>,
      Inr (tea_inventory\<lparr>quantity := - 2, lastRestocked := 2\<rparr>))"
  by (simp add: put_adjust_quantity_def adjust_mirror_def tea_db_def tea_inventory_def tea_product_def
      Inventory_findById_def Inventory_save_def Product_findById_def Product_save_def Let_def)

text \<open>
  Claim C1. Every inventory document that one of the five mutating routes writes (create or
  restock, barcode registration, full update, quantity adjustment, bill deduction) carries
  the status that \<open>deriveStatus\<close> gives for the quantity and the minimum stock written
  with it: \<open>Out of Stock\<close> when the quantity is 0, \<open>Low Stock\<close> when it is not 0 and at
  most the minimum stock, \<open>In Stock\<close> otherwise. The document of a success response is
  held by the collection and has that status.
\<close>

theorem status_persisted_with_quantity:
  "list_all status_ok (written s (fst (post_inventory now s ab)))
   \<and> list_all status_ok (written s (fst (post_register_barcode now s rb)))
   \<and> list_all status_ok (written s (fst (put_inventory now s i ub)))
   \<and> list_all status_ok (written s (fst (put_adjust_quantity now s i q)))
   \<and> list_all status_ok (written s (fst (post_deduct_bill now s items)))
   \<and> returned_ok (post_inventory now s ab)
   \<and> returned_ok (put_inventory now s i ub)
   \<and> returned_ok (put_adjust_quantity now s i q)"
  by (intro conjI written_ok post_inventory_inv post_register_barcode_inv put_inventory_inv
      put_adjust_quantity_inv post_deduct_bill_inv post_inventory_returned put_inventory_returned
      put_adjust_returned)

text \<open>
  On the tea store an adjustment by \<open>-5\<close> writes one document, of quantity \<open>-2\<close>, and
  its status is the derived one.
\<close>

theorem status_persisted_with_quantity_witness:
  "written tea_db (fst (put_adjust_quantity 2 tea_db 1 (Some (- 5))))
     = [tea_inventory\<lparr>quantity := - 2, lastRestocked := 2\<rparr>]
   \<and> status (tea_inventory\<lparr>quantity := - 2, lastRestocked := 2\<rparr>) = deriveStatus (- 2) 10"
proof -
  have w: "written tea_db (fst (put_adjust_quantity 2 tea_db 1 (Some (- 5))))
     = [tea_inventory\<lparr>quantity := - 2, lastRestocked := 2\<rparr>]"
    unfolding written_def tea_adjust by (simp add: tea_db_def tea_inventory_def)
  from status_persisted_with_quantity[of tea_db 2 restock_body tea_register 1 relocate_body "Some (- 5)" None]
  have "list_all status_ok (written tea_db (fst (put_adjust_quantity 2 tea_db 1 (Some (- 5)))))"
    by blast
  with w show ?thesis by (simp add: status_ok_def tea_inventory_def)
qed

section \<open>Bill deduction item by item\<close>

lemma find_distinct_id:
  "distinct (map inv_id xs) \<Longrightarrow> x \<in> set xs \<Longrightarrow> List.find (\<lambda>r. inv_id r = inv_id x) xs = Some x"
  by (induction xs) (auto simp: rev_image_eqI)

lemma find_inventory_mem:
  "find_inventory bc pid invs = Some cur \<Longrightarrow> cur \<in> set invs"
  by (auto simp: find_inventory_def Inventory_findOne_barcode_def Inventory_findOne_productId_def
           split: if_splits option.splits dest: find_Some_id)

lemma Product_save_stock:
  "Product_findById i ps = Some p \<Longrightarrow>
     Product_save (p\<lparr>p_stock := v\<rparr>) ps = Some (map (\<lambda>x. if p_id x = p_id p then p\<lparr>p_stock := v\<rparr> else x) ps)"
proof -
  assume a: "Product_findById i ps = Some p"
  then obtain j where j: "i = Some j" "List.find (\<lambda>p. p_id p = j) ps = Some p"
    by (auto simp: Product_findById_def split: option.splits)
  then have "p_id p = j" by (auto dest: find_Some_id)
  with j show ?thesis by (simp add: Product_save_def Product_findById_def)
qed

lemma deduct_item_not_found:
  "find_inventory (item_barcode item) (item_id item) (inventories s) = None \<Longrightarrow>
     deduct_item now item (s, ds, es) =
       (s, ds, es @ [\<lparr>err_product = item_label item, err_error = Inventory_item_not_found\<rparr>])"
  by (simp add: deduct_item_def)

lemma deduct_item_insufficient:
  "find_inventory (item_barcode item) (item_id item) (inventories s) = Some cur \<Longrightarrow>
   item_quantity item = Some q \<Longrightarrow> quantity cur < q \<Longrightarrow>
     deduct_item now item (s, ds, es) =
       (s, ds, es @ [\<lparr>err_product = item_label item,
                      err_error = Insufficient_quantity (quantity cur) q\<rparr>])"
  by (simp add: deduct_item_def)

lemma deduct_item_unquantified:
  "find_inventory (item_barcode item) (item_id item) (inventories s) = Some cur \<Longrightarrow>
   item_quantity item = None \<Longrightarrow>
     deduct_item now item (s, ds, es) =
       (s, ds, es @ [\<lparr>err_product = item_label item, err_error = Exception_message\<rparr>])"
  by (simp add: deduct_item_def)

lemma deduct_item_deducted:
  assumes f: "find_inventory (item_barcode item) (item_id item) (inventories s) = Some cur"
    and iq: "item_quantity item = Some q"
    and q: "\<not> quantity cur < q"
    and d: "ids_distinct s"
  shows "\<exists>s'. deduct_item now item (s, ds, es) = (s', ds @ [deducted_entry item q (decremented now q cur)], es)
           \<and> inventories s' = replace_doc (decremented now q cur) (inventories s)
           \<and> cache s' = cache s"
proof -
  let ?r1 = "decremented now q cur"
  have mem: "cur \<in> set (inventories s)" using f by (rule find_inventory_mem)
  have "Inventory_findById (inv_id ?r1) (inventories s) = Some cur"
    using find_distinct_id[OF d[unfolded ids_distinct_def] mem]
    by (simp add: Inventory_findById_def decremented_def)
  moreover have "barcode ?r1 = barcode cur" by (simp add: decremented_def)
  ultimately have sv: "Inventory_save ?r1 (inventories s) = Some (replace_doc ?r1 (inventories s))"
    unfolding replace_doc_def by (rule save_same_barcode)
  have step: "deduct_item now item (s, ds, es) = deduct_persist item q ?r1 (s, ds, es)"
    using f iq q by (simp add: deduct_item_def Let_def inline_status decremented_def)
  show ?thesis
  proof (cases "Product_findById (productId ?r1) (products s)")
    case None
    with sv step show ?thesis by (simp add: deduct_persist_def)
  next
    case (Some p)
    from Product_save_stock[OF Some] sv step Some show ?thesis
      by (simp add: deduct_persist_def)
  qed
qed

lemma deduct_item_count:
  "deduct_item now item (s, ds, es) = (s', ds', es') \<Longrightarrow>
     length ds' + length es' = Suc (length ds + length es)"
  unfolding deduct_item_def deduct_persist_def Let_def
  by (auto split: option.splits if_splits)

lemma deduct_loop_objects:
  "deduct_loop now (map Some xs) acc = Inr (foldl (\<lambda>a item. deduct_item now item a) acc xs)"
  by (induction xs arbitrary: acc) simp_all

lemma deduct_loop_null:
  "deduct_loop now (map Some xs @ None # rest) acc
     = Inl (fst (foldl (\<lambda>a item. deduct_item now item a) acc xs))"
  by (induction xs arbitrary: acc) simp_all

lemma deduct_fold_count:
  "foldl (\<lambda>a item. deduct_item now item a) (s, ds, es) xs = (s', ds', es') \<Longrightarrow>
     length ds' + length es' = length ds + length es + length xs"
proof (induction xs arbitrary: s ds es)
  case Nil
  then show ?case by simp
next
  case (Cons item rest)
  obtain s1 ds1 es1 where st: "deduct_item now item (s, ds, es) = (s1, ds1, es1)"
    by (cases "deduct_item now item (s, ds, es)")
  from Cons.prems st
  have "foldl (\<lambda>a item. deduct_item now item a) (s1, ds1, es1) rest = (s', ds', es')" by simp
  from Cons.IH[OF this] deduct_item_count[OF st] show ?case by simp
qed

lemma replace_doc_ids: "map inv_id (replace_doc r invs) = map inv_id invs"
  by (induction invs) (auto simp: replace_doc_def)

lemma Inventory_save_ids:
  "Inventory_save r invs = Some invs' \<Longrightarrow> distinct (map inv_id invs) \<Longrightarrow> distinct (map inv_id invs')"
proof -
  assume a: "Inventory_save r invs = Some invs'" and d: "distinct (map inv_id invs)"
  show ?thesis
  proof (cases "Inventory_findById (inv_id r) invs")
    case None
    then have "inv_id r \<notin> inv_id ` set invs"
      by (auto simp: Inventory_findById_def find_None_iff)
    with a d None show ?thesis by (auto simp: Inventory_save_def split: if_splits)
  next
    case (Some old)
    with a have "invs' = replace_doc r invs"
      by (auto simp: Inventory_save_def replace_doc_def split: if_splits)
    with d show ?thesis by (simp add: replace_doc_ids)
  qed
qed

lemma deduct_item_distinct:
  "ids_distinct s \<Longrightarrow> ids_distinct (fst (deduct_item now item (s, ds, es)))"
  unfolding deduct_item_def deduct_persist_def Let_def ids_distinct_def
  by (auto split: option.split dest: Inventory_save_ids)

lemma post_deduct_bill_response:
  assumes "xs \<noteq> []"
  shows "\<exists>s' resp. post_deduct_bill now s (Some (map Some xs)) = (s', Inr resp)
          \<and> (s', deductedItems resp, error_list resp)
              = foldl (\<lambda>a item. deduct_item now item a) (s, [], []) xs
          \<and> length (deductedItems resp) + length (error_list resp) = length xs"
proof -
  obtain s' ds es where r: "foldl (\<lambda>a item. deduct_item now item a) (s, [], []) xs = (s', ds, es)"
    by (cases "foldl (\<lambda>a item. deduct_item now item a) (s, [], []) xs")
  from deduct_fold_count[OF r] assms r show ?thesis
    by (auto simp: post_deduct_bill_def error_list_def deduct_loop_objects)
qed

text \<open>
  Claim C2, as amended. \<open>deductForBill\<close> answers with the validation error 400 when the
  items are missing, not an array or empty, and then leaves the store as it is. For a
  non-empty array of objects the response is a success and the items are processed one
  after the other, each on the store the previous ones left: an item whose inventory is not
  found (by barcode when it has one, else by product id) adds an item error and leaves the
  store unchanged; an item that asks for more than the available quantity adds an
  insufficient-quantity error and leaves the store, hence the quantity and status of that
  document, unchanged; an item whose inventory is found and that has no quantity adds an
  item error (the save is refused) and leaves the store unchanged; every other item has its
  quantity subtracted from the document, the status derived again, and an entry added to
  the deducted items. The two lists of the response hold one entry for each item of the
  call.
\<close>

theorem deduct_bill_partial_failure:
  "post_deduct_bill now s None = (s, Inl (HttpError 400 ''billItems array is required''))
   \<and> post_deduct_bill now s (Some []) = (s, Inl (HttpError 400 ''billItems array is required''))
   \<and> (xs \<noteq> [] \<longrightarrow>
        (\<exists>s' resp. post_deduct_bill now s (Some (map Some xs)) = (s', Inr resp)
           \<and> (s', deductedItems resp, error_list resp)
               = foldl (\<lambda>a item. deduct_item now item a) (s, [], []) xs
           \<and> length (deductedItems resp) + length (error_list resp) = length xs))
   \<and> (find_inventory (item_barcode item) (item_id item) (inventories s) = None \<longrightarrow>
        deduct_item now item (s, ds, es) =
          (s, ds, es @ [\<lparr>err_product = item_label item, err_error = Inventory_item_not_found\<rparr>]))
   \<and> (find_inventory (item_barcode item) (item_id item) (inventories s) = Some cur
        \<and> item_quantity item = Some q \<and> quantity cur < q \<longrightarrow>
        deduct_item now item (s, ds, es) =
          (s, ds, es @ [\<lparr>err_product = item_label item,
                         err_error = Insufficient_quantity (quantity cur) q\<rparr>]))
   \<and> (find_inventory (item_barcode item) (item_id item) (inventories s) = Some cur
        \<and> item_quantity item = None \<longrightarrow>
        deduct_item now item (s, ds, es) =
          (s, ds, es @ [\<lparr>err_product = item_label item, err_error = Exception_message\<rparr>]))
   \<and> (find_inventory (item_barcode item) (item_id item) (inventories s) = Some cur
        \<and> item_quantity item = Some q \<and> \<not> quantity cur < q \<and> ids_distinct s \<longrightarrow>
        (\<exists>s'. deduct_item now item (s, ds, es) =
                 (s', ds @ [deducted_entry item q (decremented now q cur)], es)
           \<and> inventories s' = replace_doc (decremented now q cur) (inventories s)
           \<and> cache s' = cache s))
   \<and> (ids_distinct s \<longrightarrow> ids_distinct (fst (deduct_item now item (s, ds, es))))"
proof (intro conjI impI)
  show "post_deduct_bill now s None = (s, Inl (HttpError 400 ''billItems array is required''))"
    by (simp add: post_deduct_bill_def)
  show "post_deduct_bill now s (Some []) = (s, Inl (HttpError 400 ''billItems array is required''))"
    by (simp add: post_deduct_bill_def)
qed (auto intro: post_deduct_bill_response deduct_item_not_found deduct_item_insufficient
      deduct_item_unquantified deduct_item_deducted deduct_item_distinct)

lemma tea_find: "find_inventory (Some ''8901'') pid (inventories tea_db) = Some tea_inventory"
  by (simp add: find_inventory_def truthy_str_def or_str_def Inventory_findOne_barcode_def
      tea_db_def tea_inventory_def)

lemma tea_find_missing: "find_inventory (Some ''0000'') None (inventories tea_db) = None"
  by (simp add: find_inventory_def truthy_str_def or_str_def Inventory_findOne_barcode_def
      tea_db_def tea_inventory_def)

text \<open>
  On the tea store (three teas) a bill of five teas, an unknown barcode, tea without a
  quantity and two teas: the first three items are errors, the fourth is deducted and
  leaves one tea.
\<close>

theorem deduct_bill_partial_failure_witness:
  "(\<exists>s'. post_deduct_bill 2 tea_db
            (Some [Some item_much, Some item_missing, Some item_unquantified, Some item_ok]) =
      (s', Inr \<lparr>deductedItems = [\<lparr>d_barcode = Some ''8901'', d_name = Some ''Tea'', d_quantity = 2,
                                  d_remainingQuantity = 1, d_status = Low_Stock\<rparr>],
                 errors = Some [\<lparr>err_product = Label ''8901'', err_error = Insufficient_quantity 3 5\<rparr>,
                                \<lparr>err_product = Label ''Salt'', err_error = Inventory_item_not_found\<rparr>,
                                \<lparr>err_product = Label ''Tea'', err_error = Exception_message\<rparr>]\<rparr>)
      \<and> inventories s' = [tea_inventory\<lparr>quantity := 1, lastRestocked := 2\<rparr>])"
proof -
  let ?e1 = "\<lparr>err_product = Label ''8901'', err_error = Insufficient_quantity 3 5\<rparr>"
  let ?e2 = "\<lparr>err_product = Label ''Salt'', err_error = Inventory_item_not_found\<rparr>"
  let ?e3 = "\<lparr>err_product = Label ''Tea'', err_error = Exception_message\<rparr>"
  let ?items = "[item_much, item_missing, item_unquantified, item_ok]"
  have distinct: "ids_distinct tea_db" by (simp add: ids_distinct_def tea_db_def)
  note t = deduct_bill_partial_failure[where now = 2 and s = tea_db and cur = tea_inventory
      and ds = "[]"]
  have s1: "deduct_item 2 item_much (tea_db, [], []) = (tea_db, [], [?e1])"
    using t[where item = item_much and es = "[]" and q = 5] tea_find
    by (simp add: item_much_def tea_inventory_def item_label_def truthy_str_def or_str_def)
  have s2: "deduct_item 2 item_missing (tea_db, [], [?e1]) = (tea_db, [], [?e1, ?e2])"
    using t[where item = item_missing and es = "[?e1]"] tea_find_missing
    by (simp add: item_missing_def item_label_def truthy_str_def or_str_def)
  have s3: "deduct_item 2 item_unquantified (tea_db, [], [?e1, ?e2]) = (tea_db, [], [?e1, ?e2, ?e3])"
    using t[where item = item_unquantified and es = "[?e1, ?e2]"] tea_find
    by (simp add: item_unquantified_def item_label_def truthy_str_def or_str_def)
  obtain s' where s4: "deduct_item 2 item_ok (tea_db, [], [?e1, ?e2, ?e3]) =
        (s', [deducted_entry item_ok 2 (decremented 2 2 tea_inventory)], [?e1, ?e2, ?e3])"
      and inv: "inventories s' = replace_doc (decremented 2 2 tea_inventory) (inventories tea_db)"
    using t[where item = item_ok and es = "[?e1, ?e2, ?e3]" and q = 2] tea_find distinct
    by (auto simp: item_ok_def tea_inventory_def)
  have fold: "foldl (\<lambda>a item. deduct_item 2 item a) (tea_db, [], []) ?items =
          (s', [deducted_entry item_ok 2 (decremented 2 2 tea_inventory)], [?e1, ?e2, ?e3])"
    by (simp add: s1 s2 s3 s4)
  have ne: "?items \<noteq> []" by simp
  from t[where xs = ?items] ne
  obtain s'' resp where r: "post_deduct_bill 2 tea_db (Some (map Some ?items)) = (s'', Inr resp)"
      and acc: "(s'', deductedItems resp, error_list resp)
                 = foldl (\<lambda>a item. deduct_item 2 item a) (tea_db, [], []) ?items"
    by blast
  from acc fold have eq: "s'' = s'"
      "deductedItems resp = [deducted_entry item_ok 2 (decremented 2 2 tea_inventory)]"
      "error_list resp = [?e1, ?e2, ?e3]"
    by simp_all
  have "errors resp = Some [?e1, ?e2, ?e3]"
    using eq(3) by (cases "errors resp") (simp_all add: error_list_def)
  with eq have resp: "resp = \<lparr>deductedItems = [deducted_entry item_ok 2 (decremented 2 2 tea_inventory)],
                 errors = Some [?e1, ?e2, ?e3]\<rparr>"
    by (cases resp) simp
  have "deducted_entry item_ok 2 (decremented 2 2 tea_inventory) =
     \<lparr>d_barcode = Some ''8901'', d_name = Some ''Tea'', d_quantity = 2,
      d_remainingQuantity = 1, d_status = Low_Stock\<rparr>"
    by (simp add: deducted_entry_def decremented_def item_ok_def tea_inventory_def deriveStatus_def)
  moreover have "inventories s' = [tea_inventory\<lparr>quantity := 1, lastRestocked := 2\<rparr>]"
    unfolding inv
    by (simp add: replace_doc_def decremented_def tea_db_def tea_inventory_def deriveStatus_def)
  ultimately show ?thesis using r resp eq(1) by simp
qed

text \<open>
  Claim C2 as stated fails: on the tea store an item of tea without a quantity resolves to
  the tea inventory and does not ask for more than is available, yet it is not deducted; it
  is recorded as an item error with the message of the refused save.
\<close>

theorem unquantified_item_counterexample:
  "find_inventory (item_barcode item_unquantified) (item_id item_unquantified) (inventories tea_db)
     = Some tea_inventory
   \<and> post_deduct_bill 2 tea_db (Some [Some item_unquantified]) =
       (tea_db, Inr \<lparr>deductedItems = [],
                     errors = Some [\<lparr>err_product = Label ''Tea'', err_error = Exception_message\<rparr>]\<rparr>)"
  by (simp add: post_deduct_bill_def deduct_item_def item_unquantified_def tea_find
      item_label_def truthy_str_def or_str_def)

text \<open>
  A \<open>null\<close> element is not recorded as an item error: the call answers with status 500
  after the earlier items have been deducted and saved.
\<close>

lemma null_item_aborts:
  "post_deduct_bill 2 tea_db (Some [Some item_ok, None]) =
     (tea_db\<lparr>inventories := [tea_inventory\<lparr>quantity := 1, lastRestocked := 2\<rparr>],
             products := [tea_product\<lparr>p_stock := Some 1\<rparr>]\<rparr>,
      Inl (HttpError 500 ''Failed to deduct inventory for bill''))"
  by (simp add: post_deduct_bill_def deduct_item_def deduct_persist_def item_ok_def tea_find Let_def)
     (simp add: tea_db_def tea_inventory_def tea_product_def Inventory_save_def
        Inventory_findById_def Product_findById_def Product_save_def)

section \<open>The status invariant over sequences of requests\<close>

lemma status_ok_invariant: "status_ok r = status_invariant r"
  by (cases "status r") (auto simp: status_ok_def status_invariant_def deriveStatus_def)

lemma handle_inv:
  "set (inventories (handle s tr)) \<subseteq> set (inventories s) \<union> Collect status_ok"
proof -
  obtain now req where tr: "tr = (now, req)" by (cases tr)
  show ?thesis unfolding tr handle_def
    by (cases req)
       (simp_all add: post_inventory_inv post_register_barcode_inv put_inventory_inv
          put_adjust_quantity_inv post_deduct_bill_inv)
qed

lemma run_inv:
  "set (inventories (run s trs)) \<subseteq> set (inventories s) \<union> Collect status_ok"
  unfolding run_def
proof (induction trs arbitrary: s)
  case Nil
  then show ?case by simp
next
  case (Cons tr trs)
  have "set (inventories (foldl handle (handle s tr) trs))
          \<subseteq> set (inventories (handle s tr)) \<union> Collect status_ok"
    by (rule Cons.IH)
  with handle_inv[of s tr] show ?case by auto
qed

text \<open>
  Claim C4, as amended. In every inventory document reachable by any sequence of the
  inventory requests, from the empty store or from any store whose documents satisfy it,
  the status is \<open>Out of Stock\<close> exactly when the quantity is 0, \<open>Low Stock\<close> exactly when
  the quantity is not 0 and at most the minimum stock, and \<open>In Stock\<close> exactly when the
  quantity is not 0 and above the minimum stock.
\<close>

theorem status_invariant_reachable:
  "(list_all status_invariant (inventories s) \<longrightarrow> list_all status_invariant (inventories (run s trs)))
   \<and> list_all status_invariant (inventories (run empty_db trs))"
  using run_inv[of s trs] run_inv[of empty_db trs]
  by (auto simp: list_all_iff status_ok_invariant[symmetric] empty_db_def)

lemma tea_run:
  "inventories (run empty_db tea_requests) = [tea_inventory\<lparr>quantity := - 2, lastRestocked := 2\<rparr>]"
  unfolding run_def tea_requests_def
  by (simp only: foldl.simps handle_def prod.case request.case tea_db_eq tea_adjust fst_conv) simp

text \<open>
  The tea store satisfies the invariant, and so does the document of quantity \<open>-2\<close> that
  the adjustment by \<open>-5\<close> leaves.
\<close>

theorem status_invariant_reachable_witness:
  "list_all status_invariant (inventories tea_db)
   \<and> status_invariant (tea_inventory\<lparr>quantity := - 2, lastRestocked := 2\<rparr>)"
proof -
  have h: "list_all status_invariant (inventories tea_db)"
    by (simp add: tea_db_def tea_inventory_def status_invariant_def)
  have "run tea_db [(2, Put_adjust_quantity 1 (Some (- 5)))] = fst (put_adjust_quantity 2 tea_db 1 (Some (- 5)))"
    by (simp add: run_def handle_def)
  then have "inventories (run tea_db [(2, Put_adjust_quantity 1 (Some (- 5)))])
      = [tea_inventory\<lparr>quantity := - 2, lastRestocked := 2\<rparr>]"
    unfolding tea_adjust by simp
  with h status_invariant_reachable[of tea_db "[(2, Put_adjust_quantity 1 (Some (- 5)))]"]
  show ?thesis by simp
qed

lemma tea_half_adjust:
  "put_adjust_quantity 2 tea_db 1 (Some (1 / 2)) =
     (tea_db\<lparr>inventories := [tea_inventory\<lparr>quantity := 7 / 2, lastRestocked := 2\<rparr>],
             products := [tea_product\<lparr>p_stock := Some (7 / 2)\<rparr>]\<rparr>,
      Inr (tea_inventory\<lparr>quantity := 7 / 2, lastRestocked := 2\<rparr>))"
  by (simp add: put_adjust_quantity_def adjust_mirror_def tea_db_def tea_inventory_def tea_product_def
      Inventory_findById_def Inventory_save_def Product_findById_def Product_save_def Let_def)

lemma half_run:
  "inventories (run empty_db half_requests) = [tea_inventory\<lparr>quantity := 7 / 2, lastRestocked := 2\<rparr>]"
  unfolding run_def half_requests_def
  by (simp only: foldl.simps handle_def prod.case request.case tea_db_eq tea_half_adjust fst_conv) simp

lemma seven_halves: "(7 / 2 :: real) \<notin> \<int>"
  using frac_eq_0_iff[of "7 / 2 :: real"] by (simp add: frac_def)

text \<open>
  Claim C4 as stated fails twice. Registering three units and adjusting by \<open>-5\<close> reaches a
  document of quantity \<open>-2\<close> and status \<open>Low Stock\<close>: the adjustment route does not
  reject a negative result. Registering three units and adjusting by one half reaches a
  document of quantity \<open>7/2\<close>: the quantity is a number of the schema and no route asks for
  an integer.
\<close>

theorem stated_invariant_counterexample:
  "\<not> list_all stated_invariant (inventories (run empty_db tea_requests))
   \<and> map quantity (inventories (run empty_db tea_requests)) = [- 2]
   \<and> map status (inventories (run empty_db tea_requests)) = [Low_Stock]
   \<and> \<not> list_all stated_invariant (inventories (run empty_db half_requests))
   \<and> map quantity (inventories (run empty_db half_requests)) = [7 / 2]
   \<and> (7 / 2 :: real) \<notin> \<int>"
  unfolding tea_run half_run
  by (simp add: stated_invariant_def tea_inventory_def seven_halves)

section \<open>The cache under inventory mutations\<close>

lemma post_inventory_cache: "cache (fst (post_inventory now s body)) = cache s"
  unfolding post_inventory_def post_inventory_persist_def Let_def
  by (simp split: option.split sum.split)

lemma post_register_barcode_cache: "cache (fst (post_register_barcode now s body)) = cache s"
  unfolding post_register_barcode_def register_persist_def Let_def
  by (simp split: option.split prod.split)

lemma put_inventory_cache: "cache (fst (put_inventory now s i body)) = cache s"
  unfolding put_inventory_def put_inventory_mirror_def Let_def
  by (simp split: option.split prod.split)

lemma put_adjust_quantity_cache: "cache (fst (put_adjust_quantity now s i q)) = cache s"
  unfolding put_adjust_quantity_def adjust_mirror_def Let_def
  by (simp split: option.split)

lemma deduct_item_cache: "cache (fst (deduct_item now item (s, ds, es))) = cache s"
  unfolding deduct_item_def deduct_persist_def Let_def
  by (simp split: option.split)

lemma deduct_loop_cache: "cache (loop_store (deduct_loop now items acc)) = cache (fst acc)"
proof (induction now items acc rule: deduct_loop.induct)
  case (1 now acc)
  then show ?case by (simp add: loop_store_def)
next
  case (2 now rest acc)
  then show ?case by (simp add: loop_store_def)
next
  case (3 now item rest acc)
  obtain s ds es where acc: "acc = (s, ds, es)" by (cases acc)
  show ?case using "3.IH" deduct_item_cache[of now item s ds es]
    by (simp add: acc)
qed

lemma post_deduct_bill_cache: "cache (fst (post_deduct_bill now s items)) = cache s"
proof (cases items)
  case None
  then show ?thesis by (simp add: post_deduct_bill_def)
next
  case (Some xs)
  show ?thesis unfolding Some post_deduct_bill_store
    using deduct_loop_cache[of now xs "(s, [], [])"] by simp
qed

text \<open>
  Claim C6, as amended. No inventory mutation (create or restock, barcode registration, full
  update, quantity adjustment, bill deduction) touches the cache: the cache after the
  request is the cache before it, so an entry that was present stays present with its
  value, and no entry is invalidated.
\<close>

theorem mutations_leave_cache:
  "cache (fst (post_inventory now s ab)) = cache s
   \<and> cache (fst (post_register_barcode now s rb)) = cache s
   \<and> cache (fst (put_inventory now s i ub)) = cache s
   \<and> cache (fst (put_adjust_quantity now s i q)) = cache s
   \<and> cache (fst (post_deduct_bill now s items)) = cache s"
  by (simp add: post_inventory_cache post_register_barcode_cache put_inventory_cache
      put_adjust_quantity_cache post_deduct_bill_cache)

text \<open>
  Claim C6 as stated fails: after a quantity adjustment the product cached under the barcode
  of the adjusted inventory is still there, with the stock of before the adjustment.
\<close>

theorem cache_invalidated_counterexample:
  "cache (fst (put_adjust_quantity 2 tea_cached_db 1 (Some (- 5)))) ''barcode:8901''
     = Some (86400, JProduct tea_product)
   \<and> p_stock tea_product = Some 3
   \<and> map quantity (inventories (fst (put_adjust_quantity 2 tea_cached_db 1 (Some (- 5))))) = [- 2]"
  by (simp add: put_adjust_quantity_def adjust_mirror_def tea_cached_db_def tea_db_def
      tea_inventory_def tea_product_def
      Inventory_findById_def Inventory_save_def Product_findById_def Product_save_def Let_def)

section \<open>Create or restock\<close>

lemma Product_findById_id: "Product_findById i ps = Some p \<Longrightarrow> i = Some (p_id p)"
  by (auto simp: Product_findById_def split: option.splits dest: find_Some_id)

lemma product_step:
  assumes "barcode_free s body"
  shows "(case Product_findById (a_productId body) (products s) of
            None \<Rightarrow> Some (products s)
          | Some p \<Rightarrow>
              Product_save (p\<lparr>p_stock := Some n,
                               p_barcode := or_str_opt (a_barcode body) (p_barcode p)\<rparr>) (products s))
         = Some (mirrored body n (products s))"
proof (cases "Product_findById (a_productId body) (products s)")
  case None
  then show ?thesis by (simp add: mirrored_def)
next
  case (Some p)
  have "Product_findById (Some (p_id p)) (products s) = Some p"
    using Some Product_findById_id[OF Some] by simp
  with Some assms show ?thesis
    by (auto simp: mirrored_def Product_save_def barcode_free_def)
qed

lemma persist_ok:
  assumes bf: "barcode_free s body"
    and sv: "Inventory_save (r0\<lparr>status := deriveStatus (quantity r0) (minStock r0)\<rparr>) (inventories s) = Some invs'"
  shows "post_inventory_persist s body r0 =
           (s\<lparr>products := mirrored body (quantity r0) (products s), inventories := invs'\<rparr>,
            Inr (r0\<lparr>status := deriveStatus (quantity r0) (minStock r0)\<rparr>))"
proof (cases "Product_findById (a_productId body) (products s)")
  case None
  with sv show ?thesis
    by (simp add: post_inventory_persist_def Let_def inline_status mirrored_def)
next
  case (Some p)
  have "Product_save (p\<lparr>p_stock := Some (quantity r0),
          p_barcode := or_str_opt (a_barcode body) (p_barcode p)\<rparr>) (products s)
        = Some (mirrored body (quantity r0) (products s))"
    using product_step[OF bf, of "quantity r0"] Some by simp
  with Some sv show ?thesis
    by (simp add: post_inventory_persist_def Let_def inline_status)
qed

lemma find_distinct_inv:
  "ids_distinct s \<Longrightarrow> cur \<in> set (inventories s) \<Longrightarrow> Inventory_findById (inv_id cur) (inventories s) = Some cur"
  unfolding ids_distinct_def Inventory_findById_def by (rule find_distinct_id)

lemma post_inventory_restock:
  assumes q: "a_quantity body = Some q" "q \<noteq> 0"
    and pk: "product_known s body" and bf: "barcode_free s body" and d: "ids_distinct s"
    and f: "find_inventory (a_barcode body) (a_productId body) (inventories s) = Some cur"
  shows "post_inventory now s body =
           (s\<lparr>products := mirrored body (quantity cur + q) (products s),
              inventories := replace_doc (restocked now body q cur) (inventories s)\<rparr>,
            Inr (restocked now body q cur))"
proof -
  let ?r0 = "cur\<lparr>quantity := quantity cur + q,
                 minStock := or_num (a_minStock body) (minStock cur),
                 location := or_str (a_location body) (location cur),
                 warehouse := or_str (a_warehouse body) (warehouse cur),
                 lastRestocked := now\<rparr>"
  have r1: "?r0\<lparr>status := deriveStatus (quantity ?r0) (minStock ?r0)\<rparr> = restocked now body q cur"
    by (simp add: restocked_def)
  have doc: "post_inventory_doc now s body q = Inr ?r0"
    using f by (simp add: post_inventory_doc_def)
  have "Inventory_findById (inv_id (restocked now body q cur)) (inventories s) = Some cur"
    using find_distinct_inv[OF d find_inventory_mem[OF f]] by (simp add: restocked_def)
  moreover have "barcode (restocked now body q cur) = barcode cur" by (simp add: restocked_def)
  ultimately have "Inventory_save (restocked now body q cur) (inventories s)
      = Some (replace_doc (restocked now body q cur) (inventories s))"
    unfolding replace_doc_def by (rule save_same_barcode)
  then have "post_inventory_persist s body ?r0 =
           (s\<lparr>products := mirrored body (quantity ?r0) (products s),
              inventories := replace_doc (restocked now body q cur) (inventories s)\<rparr>,
            Inr (restocked now body q cur))"
    using persist_ok[OF bf, of ?r0] unfolding r1 by simp
  with q pk doc show ?thesis
    by (simp add: post_inventory_def product_known_def)
qed

lemma fresh_oid_ge: "i \<in> set ids \<Longrightarrow> i < fresh_oid ids"
  unfolding fresh_oid_def by (induction ids) auto

lemma fresh_not_found: "Inventory_findById (fresh_oid (map inv_id invs)) invs = None"
  using fresh_oid_ge[of _ "map inv_id invs"]
  by (fastforce simp: Inventory_findById_def find_None_iff)

lemma find_inventory_None_barcode:
  "find_inventory bc pid invs = None \<Longrightarrow> truthy_str bc \<Longrightarrow> \<not> list_ex (\<lambda>x. barcode x = bc) invs"
  by (auto simp: find_inventory_def Inventory_findOne_barcode_def truthy_str_def or_str_def
      find_None_iff list_ex_iff split: option.splits)

lemma post_inventory_create:
  assumes q: "a_quantity body = Some q" "q \<noteq> 0"
    and p: "a_productId body = Some pid" "Product_findById (Some pid) (products s) \<noteq> None"
    and bf: "barcode_free s body"
    and bc: "a_barcode body \<noteq> Some []"
    and f: "find_inventory (a_barcode body) (a_productId body) (inventories s) = None"
  shows "post_inventory now s body =
           (s\<lparr>products := mirrored body q (products s),
              inventories := inventories s @ [created now s body q]\<rparr>,
            Inr (created now s body q))"
proof -
  let ?r0 = "(created now s body q)\<lparr>status := In_Stock\<rparr>"
  have r1: "?r0\<lparr>status := deriveStatus (quantity ?r0) (minStock ?r0)\<rparr> = created now s body q"
    by (simp add: created_def)
  have doc: "post_inventory_doc now s body q = Inr ?r0"
    using f p by (simp add: post_inventory_doc_def created_def)
  have nb: "barcode (created now s body q) \<noteq> None \<Longrightarrow>
        \<not> list_ex (\<lambda>x. barcode x = barcode (created now s body q)) (inventories s)"
  proof -
    assume "barcode (created now s body q) \<noteq> None"
    with bc have "truthy_str (a_barcode body)"
      by (auto simp: created_def truthy_str_def)
    from find_inventory_None_barcode[OF f this] show ?thesis by (simp add: created_def)
  qed
  have "Inventory_findById (inv_id (created now s body q)) (inventories s) = None"
    using fresh_not_found by (simp add: created_def)
  moreover have "productId (created now s body q) \<noteq> None" using p by (simp add: created_def)
  ultimately have "Inventory_save (created now s body q) (inventories s)
      = Some (inventories s @ [created now s body q])"
    using nb by (auto simp: Inventory_save_def)
  then have "post_inventory_persist s body ?r0 =
           (s\<lparr>products := mirrored body (quantity ?r0) (products s),
              inventories := inventories s @ [created now s body q]\<rparr>,
            Inr (created now s body q))"
    using persist_ok[OF bf, of ?r0] unfolding r1 by simp
  moreover have "quantity ?r0 = q" by (simp add: created_def)
  ultimately show ?thesis using q p doc
    by (simp add: post_inventory_def)
qed

lemma post_inventory_neither:
  assumes "a_productId body = None" "\<not> truthy_str (a_barcode body)"
  shows "\<exists>msg. post_inventory now s body = (s, Inl (HttpError 400 msg))"
  using assms
  by (auto simp: post_inventory_def post_inventory_doc_def find_inventory_def split: option.split)

lemma find_append_None:
  "List.find P xs = None \<Longrightarrow> List.find P (xs @ ys) = List.find P ys"
  by (induction xs) (auto split: if_splits)

lemma find_product_replace:
  "List.find (\<lambda>x. p_id x = i) ps = Some p \<Longrightarrow> p_id p' = i \<Longrightarrow>
     List.find (\<lambda>x. p_id x = i) (map (\<lambda>x. if p_id x = i then p' else x) ps) = Some p'"
  by (induction ps) (auto split: if_splits)

lemma mirrored_find:
  assumes "Product_findById (a_productId body) ps = Some p"
  shows "Product_findById (a_productId body) (mirrored body n ps)
           = Some (p\<lparr>p_stock := Some n, p_barcode := or_str_opt (a_barcode body) (p_barcode p)\<rparr>)"
proof -
  have i: "a_productId body = Some (p_id p)" using assms by (rule Product_findById_id)
  have "List.find (\<lambda>x. p_id x = p_id p) ps = Some p"
    using assms unfolding i by (simp add: Product_findById_def)
  from find_product_replace[OF this, of "p\<lparr>p_stock := Some n, p_barcode := or_str_opt (a_barcode body) (p_barcode p)\<rparr>"]
  show ?thesis using assms by (simp add: mirrored_def i Product_findById_def)
qed

lemma replace_doc_fresh:
  "inv_id r = inv_id c \<Longrightarrow> inv_id c \<notin> inv_id ` set invs \<Longrightarrow> replace_doc r (invs @ [c]) = invs @ [r]"
  by (induction invs) (auto simp: replace_doc_def)

lemma fresh_oid_notin: "fresh_oid ids \<notin> set ids"
  using fresh_oid_ge[of "fresh_oid ids" ids] by auto

lemma post_inventory_twice:
  assumes b: "b \<noteq> []"
    and b1: "a_barcode body1 = Some b" "a_productId body1 = Some pid" "a_quantity body1 = Some q1" "q1 \<noteq> 0"
    and b2: "a_barcode body2 = Some b" "a_productId body2 = Some pid" "a_quantity body2 = Some q2" "q2 \<noteq> 0"
    and p: "Product_findById (Some pid) (products s) \<noteq> None"
    and bf: "barcode_free s body1"
    and d: "ids_distinct s"
    and f: "find_inventory (Some b) (Some pid) (inventories s) = None"
  shows "\<exists>s1 r1 s2 r2.
           post_inventory now1 s body1 = (s1, Inr r1)
           \<and> post_inventory now2 s1 body2 = (s2, Inr r2)
           \<and> filter (\<lambda>x. barcode x = Some b) (inventories s2) = [r2]
           \<and> quantity r2 = q1 + q2
           \<and> length (inventories s2) = Suc (length (inventories s))"
proof -
  let ?c = "created now1 s body1 q1"
  let ?s1 = "s\<lparr>products := mirrored body1 q1 (products s), inventories := inventories s @ [?c]\<rparr>"
  let ?r2 = "restocked now2 body2 q2 ?c"
  have tb: "truthy_str (Some b)" using b by (simp add: truthy_str_def)
  have call1: "post_inventory now1 s body1 = (?s1, Inr ?c)"
    using post_inventory_create[of body1 q1 pid s now1] b1 p bf f b by simp
  have nob: "List.find (\<lambda>r. barcode r = Some b) (inventories s) = None"
    using f tb b by (simp add: find_inventory_def Inventory_findOne_barcode_def or_str_def)
  have bc: "barcode ?c = Some b" and idc: "inv_id ?c = fresh_oid (map inv_id (inventories s))"
    using b1 by (simp_all add: created_def)
  have f2: "find_inventory (a_barcode body2) (a_productId body2) (inventories ?s1) = Some ?c"
    using b2 tb b find_append_None[OF nob, of "[?c]"] bc
    by (simp add: find_inventory_def Inventory_findOne_barcode_def or_str_def)
  have d2: "ids_distinct ?s1"
    using d fresh_oid_notin[of "map inv_id (inventories s)"] by (simp add: ids_distinct_def idc)
  obtain p0 where p0: "Product_findById (a_productId body1) (products s) = Some p0"
    using p b1 by auto
  have pf: "Product_findById (a_productId body2) (products ?s1)
      = Some (p0\<lparr>p_stock := Some q1, p_barcode := Some b\<rparr>)"
    using mirrored_find[OF p0, of q1] b1 b2 tb by (simp add: or_str_opt_def)
  have pk2: "product_known ?s1 body2" using pf by (simp add: product_known_def)
  have bf2: "barcode_free ?s1 body2"
    using pf b2 tb by (simp add: barcode_free_def or_str_opt_def)
  have call2: "post_inventory now2 ?s1 body2 =
      (?s1\<lparr>products := mirrored body2 (quantity ?c + q2) (products ?s1),
            inventories := replace_doc ?r2 (inventories ?s1)\<rparr>, Inr ?r2)"
    using post_inventory_restock[OF b2(3) b2(4) pk2 bf2 d2 f2] .
  have rep: "replace_doc ?r2 (inventories ?s1) = inventories s @ [?r2]"
    using replace_doc_fresh[of ?r2 ?c "inventories s"] fresh_oid_notin[of "map inv_id (inventories s)"]
    by (simp add: restocked_def idc)
  have nof: "filter (\<lambda>x. barcode x = Some b) (inventories s) = []"
    using nob by (auto simp: find_None_iff filter_empty_conv)
  have "filter (\<lambda>x. barcode x = Some b) (inventories s @ [?r2]) = [?r2]"
    using nof bc by (simp add: restocked_def)
  moreover have "quantity ?r2 = q1 + q2" by (simp add: restocked_def created_def)
  ultimately show ?thesis using call1 call2 rep by simp
qed

lemma or_facts:
  "or_num None d = d" "m \<noteq> 0 \<Longrightarrow> or_num (Some m) d = m"
  "or_str None e = e" "x \<noteq> [] \<Longrightarrow> or_str (Some x) e = x"
  by (simp_all add: or_num_def or_str_def)

text \<open>
  Claim C3, as amended. For a body whose quantity \<open>q\<close> is not 0 and whose product, when it
  names one, exists and can take the barcode: when a document matching the non-empty barcode
  (or, without one, the product id) exists, \<open>q\<close> is added to its quantity and no document
  is added; a supplied minimum stock other than 0 and a supplied non-empty location or
  warehouse replace the stored ones, absent ones are kept; when no document matches and the
  body names a product, a new document is added with the values of the body, the minimum
  stock being 10 when absent. Two calls with the same product and barcode and quantities
  \<open>q1\<close>, \<open>q2\<close> other than 0, on a store without a document of that barcode, leave exactly
  one document of that barcode, with quantity \<open>q1 + q2\<close>. The request is refused with
  status 400 when the body has neither a product id nor a barcode, and when its quantity is
  missing or 0.
\<close>

theorem restock_or_create:
  "(a_quantity body = Some q \<and> q \<noteq> 0 \<and> product_known s body \<and> barcode_free s body
      \<and> ids_distinct s
      \<and> find_inventory (a_barcode body) (a_productId body) (inventories s) = Some cur \<longrightarrow>
      post_inventory now s body =
        (s\<lparr>products := mirrored body (quantity cur + q) (products s),
           inventories := replace_doc (restocked now body q cur) (inventories s)\<rparr>,
         Inr (restocked now body q cur))
      \<and> length (replace_doc (restocked now body q cur) (inventories s)) = length (inventories s)
      \<and> quantity (restocked now body q cur) = quantity cur + q)
   \<and> (a_quantity body = Some q \<and> q \<noteq> 0 \<and> a_productId body = Some pid
      \<and> Product_findById (Some pid) (products s) \<noteq> None \<and> barcode_free s body
      \<and> a_barcode body \<noteq> Some []
      \<and> find_inventory (a_barcode body) (a_productId body) (inventories s) = None \<longrightarrow>
      post_inventory now s body =
        (s\<lparr>products := mirrored body q (products s),
           inventories := inventories s @ [created now s body q]\<rparr>,
         Inr (created now s body q))
      \<and> quantity (created now s body q) = q
      \<and> (a_minStock body = None \<longrightarrow> minStock (created now s body q) = 10))
   \<and> (b \<noteq> [] \<and> a_barcode body1 = Some b \<and> a_productId body1 = Some pid
      \<and> a_quantity body1 = Some q1 \<and> q1 \<noteq> 0
      \<and> a_barcode body2 = Some b \<and> a_productId body2 = Some pid
      \<and> a_quantity body2 = Some q2 \<and> q2 \<noteq> 0
      \<and> Product_findById (Some pid) (products s) \<noteq> None \<and> barcode_free s body1
      \<and> ids_distinct s \<and> find_inventory (Some b) (Some pid) (inventories s) = None \<longrightarrow>
      (\<exists>s1 r1 s2 r2.
           post_inventory now1 s body1 = (s1, Inr r1)
           \<and> post_inventory now2 s1 body2 = (s2, Inr r2)
           \<and> filter (\<lambda>x. barcode x = Some b) (inventories s2) = [r2]
           \<and> quantity r2 = q1 + q2
           \<and> length (inventories s2) = Suc (length (inventories s))))
   \<and> (a_productId body = None \<and> \<not> truthy_str (a_barcode body) \<longrightarrow>
      (\<exists>msg. post_inventory now s body = (s, Inl (HttpError 400 msg))))
   \<and> (\<not> truthy_num (a_quantity body) \<longrightarrow>
      post_inventory now s body = (s, Inl (HttpError 400 ''Quantity is required'')))
   \<and> (m \<noteq> 0 \<longrightarrow> or_num (Some m) d = m) \<and> or_num None d = d
   \<and> (x \<noteq> [] \<longrightarrow> or_str (Some x) e = x) \<and> or_str None e = e"
proof (intro conjI impI)
  assume "a_quantity body = Some q \<and> q \<noteq> 0 \<and> product_known s body \<and> barcode_free s body
      \<and> ids_distinct s
      \<and> find_inventory (a_barcode body) (a_productId body) (inventories s) = Some cur"
  then show "post_inventory now s body =
        (s\<lparr>products := mirrored body (quantity cur + q) (products s),
           inventories := replace_doc (restocked now body q cur) (inventories s)\<rparr>,
         Inr (restocked now body q cur))"
    using post_inventory_restock by blast
next
  assume "a_quantity body = Some q \<and> q \<noteq> 0 \<and> a_productId body = Some pid
      \<and> Product_findById (Some pid) (products s) \<noteq> None \<and> barcode_free s body
      \<and> a_barcode body \<noteq> Some []
      \<and> find_inventory (a_barcode body) (a_productId body) (inventories s) = None"
  then show "post_inventory now s body =
        (s\<lparr>products := mirrored body q (products s),
           inventories := inventories s @ [created now s body q]\<rparr>,
         Inr (created now s body q))"
    using post_inventory_create by blast
next
  assume "b \<noteq> [] \<and> a_barcode body1 = Some b \<and> a_productId body1 = Some pid
      \<and> a_quantity body1 = Some q1 \<and> q1 \<noteq> 0
      \<and> a_barcode body2 = Some b \<and> a_productId body2 = Some pid
      \<and> a_quantity body2 = Some q2 \<and> q2 \<noteq> 0
      \<and> Product_findById (Some pid) (products s) \<noteq> None \<and> barcode_free s body1
      \<and> ids_distinct s \<and> find_inventory (Some b) (Some pid) (inventories s) = None"
  then show "\<exists>s1 r1 s2 r2.
           post_inventory now1 s body1 = (s1, Inr r1)
           \<and> post_inventory now2 s1 body2 = (s2, Inr r2)
           \<and> filter (\<lambda>x. barcode x = Some b) (inventories s2) = [r2]
           \<and> quantity r2 = q1 + q2
           \<and> length (inventories s2) = Suc (length (inventories s))"
    using post_inventory_twice[of b body1 pid q1 body2 q2 s now1 now2] by blast
next
  assume "a_productId body = None \<and> \<not> truthy_str (a_barcode body)"
  then show "\<exists>msg. post_inventory now s body = (s, Inl (HttpError 400 msg))"
    using post_inventory_neither by blast
next
  assume "\<not> truthy_num (a_quantity body)"
  then show "post_inventory now s body = (s, Inl (HttpError 400 ''Quantity is required''))"
    by (simp add: post_inventory_def truthy_num_def split: option.splits)
qed (simp_all add: or_facts restocked_def created_def replace_doc_def or_num_def)

text \<open>
  On the tea store a restock of five units with a minimum stock of 2 and no location gives
  eight units, minimum stock 2 and the stored location; on the store without inventory two
  calls of five and six units leave one document of eleven units; a body with neither
  product nor barcode, and a body of quantity 0, are refused.
\<close>

theorem restock_or_create_witness:
  "post_inventory 2 tea_db restock_body =
     (tea_db\<lparr>products := mirrored restock_body 8 (products tea_db),
             inventories := replace_doc (restocked 2 restock_body 5 tea_inventory) (inventories tea_db)\<rparr>,
      Inr (restocked 2 restock_body 5 tea_inventory))
   \<and> quantity (restocked 2 restock_body 5 tea_inventory) = 8
   \<and> minStock (restocked 2 restock_body 5 tea_inventory) = 2
   \<and> location (restocked 2 restock_body 5 tea_inventory) = ''Main Store''
   \<and> (\<exists>s1 r1 s2 r2.
         post_inventory 1 catalog_db restock_body = (s1, Inr r1)
         \<and> post_inventory 2 s1 (restock_body\<lparr>a_quantity := Some 6\<rparr>) = (s2, Inr r2)
         \<and> filter (\<lambda>x. barcode x = Some ''8901'') (inventories s2) = [r2]
         \<and> quantity r2 = 11
         \<and> length (inventories s2) = 1)
   \<and> (\<exists>msg. post_inventory 2 tea_db (restock_body\<lparr>a_productId := None, a_barcode := None\<rparr>)
         = (tea_db, Inl (HttpError 400 msg)))
   \<and> post_inventory 1 catalog_db restock_body =
       (catalog_db\<lparr>products := mirrored restock_body 5 (products catalog_db),
                   inventories := [created 1 catalog_db restock_body 5]\<rparr>,
        Inr (created 1 catalog_db restock_body 5))
   \<and> post_inventory 2 tea_db zero_quantity_body = (tea_db, Inl (HttpError 400 ''Quantity is required''))"
proof -
  have pf: "Product_findById (Some 1) [tea_product] = Some tea_product"
    by (simp add: Product_findById_def tea_product_def)
  have h1: "a_quantity restock_body = Some 5 \<and> (5::real) \<noteq> 0 \<and> product_known tea_db restock_body
      \<and> barcode_free tea_db restock_body \<and> ids_distinct tea_db
      \<and> find_inventory (a_barcode restock_body) (a_productId restock_body) (inventories tea_db)
          = Some tea_inventory"
    using pf tea_find
    by (simp add: restock_body_def product_known_def barcode_free_def ids_distinct_def tea_db_def
        or_str_opt_def truthy_str_def tea_product_def)
  have h3: "''8901'' \<noteq> [] \<and> a_barcode restock_body = Some ''8901'' \<and> a_productId restock_body = Some 1
      \<and> a_quantity restock_body = Some 5 \<and> (5::real) \<noteq> 0
      \<and> a_barcode (restock_body\<lparr>a_quantity := Some 6\<rparr>) = Some ''8901''
      \<and> a_productId (restock_body\<lparr>a_quantity := Some 6\<rparr>) = Some 1
      \<and> a_quantity (restock_body\<lparr>a_quantity := Some 6\<rparr>) = Some 6 \<and> (6::real) \<noteq> 0
      \<and> Product_findById (Some 1) (products catalog_db) \<noteq> None \<and> barcode_free catalog_db restock_body
      \<and> ids_distinct catalog_db
      \<and> find_inventory (Some ''8901'') (Some 1) (inventories catalog_db) = None"
    using pf
    by (simp add: restock_body_def barcode_free_def ids_distinct_def catalog_db_def
        or_str_opt_def truthy_str_def tea_product_def find_inventory_def or_str_def
        Inventory_findOne_barcode_def)
  have h4: "a_productId (restock_body\<lparr>a_productId := None, a_barcode := None\<rparr>) = None
      \<and> \<not> truthy_str (a_barcode (restock_body\<lparr>a_productId := None, a_barcode := None\<rparr>))"
    by (simp add: truthy_str_def)
  note t1 = restock_or_create[where body = restock_body and q = 5 and s = tea_db
      and cur = tea_inventory and now = 2]
  note t3 = restock_or_create[where ?b = "''8901''" and ?body1.0 = restock_body and pid = 1
      and ?q1.0 = 5 and ?body2.0 = "restock_body\<lparr>a_quantity := Some 6\<rparr>" and ?q2.0 = 6
      and s = catalog_db and ?now1.0 = 1 and ?now2.0 = 2]
  note t4 = restock_or_create[where body = "restock_body\<lparr>a_productId := None, a_barcode := None\<rparr>"
      and s = tea_db and now = 2]
  have c1: "post_inventory 2 tea_db restock_body =
     (tea_db\<lparr>products := mirrored restock_body (quantity tea_inventory + 5) (products tea_db),
             inventories := replace_doc (restocked 2 restock_body 5 tea_inventory) (inventories tea_db)\<rparr>,
      Inr (restocked 2 restock_body 5 tea_inventory))"
    using t1 h1 by blast
  have c3: "\<exists>s1 r1 s2 r2.
         post_inventory 1 catalog_db restock_body = (s1, Inr r1)
         \<and> post_inventory 2 s1 (restock_body\<lparr>a_quantity := Some 6\<rparr>) = (s2, Inr r2)
         \<and> filter (\<lambda>x. barcode x = Some ''8901'') (inventories s2) = [r2]
         \<and> quantity r2 = 5 + 6
         \<and> length (inventories s2) = Suc (length (inventories catalog_db))"
    using t3 h3 by blast
  have c4: "\<exists>msg. post_inventory 2 tea_db (restock_body\<lparr>a_productId := None, a_barcode := None\<rparr>)
         = (tea_db, Inl (HttpError 400 msg))"
    using t4 h4 by blast
  have vals: "quantity (restocked 2 restock_body 5 tea_inventory) = 8
      \<and> minStock (restocked 2 restock_body 5 tea_inventory) = 2
      \<and> location (restocked 2 restock_body 5 tea_inventory) = ''Main Store''"
    by (simp add: restocked_def restock_body_def tea_inventory_def or_num_def or_str_def)
  have q8: "quantity tea_inventory + 5 = 8" by (simp add: tea_inventory_def)
  from c3 have c3': "\<exists>s1 r1 s2 r2.
         post_inventory 1 catalog_db restock_body = (s1, Inr r1)
         \<and> post_inventory 2 s1 (restock_body\<lparr>a_quantity := Some 6\<rparr>) = (s2, Inr r2)
         \<and> filter (\<lambda>x. barcode x = Some ''8901'') (inventories s2) = [r2]
         \<and> quantity r2 = 11
         \<and> length (inventories s2) = 1"
    by (simp add: catalog_db_def)
  have h2: "a_quantity restock_body = Some 5 \<and> (5::real) \<noteq> 0 \<and> a_productId restock_body = Some 1
      \<and> Product_findById (Some 1) (products catalog_db) \<noteq> None \<and> barcode_free catalog_db restock_body
      \<and> a_barcode restock_body \<noteq> Some []
      \<and> find_inventory (a_barcode restock_body) (a_productId restock_body) (inventories catalog_db) = None"
    using h3 by (simp add: restock_body_def)
  note t2 = restock_or_create[where body = restock_body and q = 5 and pid = 1 and s = catalog_db
      and now = 1]
  have c2: "post_inventory 1 catalog_db restock_body =
       (catalog_db\<lparr>products := mirrored restock_body 5 (products catalog_db),
                   inventories := inventories catalog_db @ [created 1 catalog_db restock_body 5]\<rparr>,
        Inr (created 1 catalog_db restock_body 5))"
    using t2 h2 by blast
  have h5: "\<not> truthy_num (a_quantity zero_quantity_body)"
    by (simp add: zero_quantity_body_def truthy_num_def)
  have c5: "post_inventory 2 tea_db zero_quantity_body = (tea_db, Inl (HttpError 400 ''Quantity is required''))"
    using restock_or_create[where body = zero_quantity_body and s = tea_db and now = 2] h5 by blast
  have c2': "post_inventory 1 catalog_db restock_body =
       (catalog_db\<lparr>products := mirrored restock_body 5 (products catalog_db),
                   inventories := [created 1 catalog_db restock_body 5]\<rparr>,
        Inr (created 1 catalog_db restock_body 5))"
    unfolding c2 by (simp add: catalog_db_def)
  from c1 q8 vals c3' c4 c5 show ?thesis unfolding c2' by simp
qed

text \<open>
  Claim C3 as stated fails: with a matching document in the store, a body of quantity 0 is
  refused (400, quantity required) although it has a barcode, so its location is not
  stored; and a supplied minimum stock of 0 does not replace the stored 10.
\<close>

theorem restock_or_create_counterexample:
  "find_inventory (a_barcode zero_quantity_body) (a_productId zero_quantity_body) (inventories tea_db)
     = Some tea_inventory
   \<and> post_inventory 2 tea_db zero_quantity_body = (tea_db, Inl (HttpError 400 ''Quantity is required''))
   \<and> location tea_inventory \<noteq> ''Shelf 2''
   \<and> map minStock (inventories (fst (post_inventory 2 tea_db zero_minStock_body))) = [10]"
  by (simp add: post_inventory_def zero_quantity_body_def zero_minStock_body_def tea_find
      post_inventory_doc_def post_inventory_persist_def Let_def Product_findById_def
      Inventory_save_def Inventory_findById_def or_num_def or_str_def)
     (simp add: tea_db_def tea_inventory_def)

text \<open>
  A new inventory with a barcode and no product id passes the check of the route and is then
  rejected by the schema, which requires a product id.
\<close>

lemma barcode_only_rejected:
  "post_inventory 2 catalog_db barcode_only_body = (catalog_db, Inl (HttpError 500 ''Failed to add inventory''))"
  by (simp add: post_inventory_def barcode_only_body_def catalog_db_def find_inventory_def
      truthy_str_def or_str_def Inventory_findOne_barcode_def
      post_inventory_doc_def post_inventory_persist_def Let_def Product_findById_def
      Inventory_save_def Inventory_findById_def fresh_oid_def)

section \<open>The stock mirror on the product\<close>

text \<open>
  The quantity adjustment looks the product up through the inventory and gives it the
  quantity of the inventory.
\<close>

lemma adjust_mirrors_stock:
  assumes "put_adjust_quantity now s i q = (s', Inr r)"
    and "Product_findById (productId r) (products s) = Some p"
  shows "Product_findById (productId r) (products s') = Some (p\<lparr>p_stock := Some (quantity r)\<rparr>)"
proof -
  have i: "productId r = Some (p_id p)" using assms(2) by (rule Product_findById_id)
  have f: "List.find (\<lambda>x. p_id x = p_id p) (products s) = Some p"
    using assms(2) unfolding i by (simp add: Product_findById_def)
  have sv: "Product_save (p\<lparr>p_stock := Some (quantity r)\<rparr>) (products s)
      = Some (map (\<lambda>x. if p_id x = p_id p then p\<lparr>p_stock := Some (quantity r)\<rparr> else x) (products s))"
    using Product_save_stock[OF assms(2)] .
  have "adjust_mirror s invs' r = (s\<lparr>inventories := invs',
          products := map (\<lambda>x. if p_id x = p_id p then p\<lparr>p_stock := Some (quantity r)\<rparr> else x) (products s)\<rparr>,
          Inr r)" for invs'
    using assms(2) sv by (simp add: adjust_mirror_def)
  moreover have "\<exists>invs'. (s', Inr r :: http_error + inventory) = adjust_mirror s invs' r"
    using assms(1) unfolding put_adjust_quantity_def Let_def
    by (auto split: option.splits simp: adjust_mirror_def)
  ultimately have "products s' = map (\<lambda>x. if p_id x = p_id p then p\<lparr>p_stock := Some (quantity r)\<rparr> else x) (products s)"
    by auto
  with find_product_replace[OF f, of "p\<lparr>p_stock := Some (quantity r)\<rparr>"] show ?thesis
    by (simp add: i Product_findById_def)
qed

text \<open>
  Claim C5 on two requests to the tea store (three units, product stock 3). A restock by
  barcode alone, \<open>POST /api/inventory\<close> with \<open>{barcode: '8901', quantity: 5}\<close>, raises the
  inventory to 8 and leaves the stock of its product, which is in the store, at 3: the route
  looks the product up by the product id of the body only. A full update without a
  quantity, \<open>PUT /api/inventory/1\<close> with \<open>{location: 'Shelf 2'}\<close>, keeps the quantity 3
  and sets the stock of the product to the \<open>undefined\<close> quantity of the body.
\<close>

theorem stock_mirror_diverges:
  "map quantity (inventories (fst (post_inventory 2 tea_db barcode_only_body))) = [8]
   \<and> map productId (inventories (fst (post_inventory 2 tea_db barcode_only_body))) = [Some 1]
   \<and> Product_findById (Some 1) (products (fst (post_inventory 2 tea_db barcode_only_body)))
        = Some tea_product
   \<and> p_stock tea_product = Some 3
   \<and> map quantity (inventories (fst (put_inventory 2 tea_db 1 relocate_body))) = [3]
   \<and> map productId (inventories (fst (put_inventory 2 tea_db 1 relocate_body))) = [Some 1]
   \<and> map p_id (products (fst (put_inventory 2 tea_db 1 relocate_body))) = [1]
   \<and> map p_stock (products (fst (put_inventory 2 tea_db 1 relocate_body))) = [None]"
proof -
  have a: "post_inventory 2 tea_db barcode_only_body =
      (tea_db\<lparr>inventories := [tea_inventory\<lparr>quantity := 8, lastRestocked := 2\<rparr>]\<rparr>,
       Inr (tea_inventory\<lparr>quantity := 8, lastRestocked := 2\<rparr>))"
    by (simp add: post_inventory_def barcode_only_body_def tea_find
      post_inventory_doc_def post_inventory_persist_def Let_def Product_findById_def
      Inventory_save_def Inventory_findById_def or_num_def or_str_def)
     (simp add: tea_db_def tea_inventory_def)
  have b: "put_inventory 2 tea_db 1 relocate_body =
      (tea_db\<lparr>inventories := [tea_inventory\<lparr>location := ''Shelf 2'', lastRestocked := 2, status := Low_Stock\<rparr>],
              products := [tea_product\<lparr>p_stock := None\<rparr>]\<rparr>,
       Inr (tea_inventory\<lparr>location := ''Shelf 2'', lastRestocked := 2, status := Low_Stock\<rparr>))"
    by (simp add: put_inventory_def put_inventory_mirror_def relocate_body_def tea_db_def
      Inventory_findByIdAndUpdate_def Let_def Product_findById_def Product_save_def
      Inventory_save_def Inventory_findById_def tea_inventory_def tea_product_def)
  show ?thesis unfolding a b
    by (simp add: tea_db_def tea_inventory_def tea_product_def Product_findById_def)
qed

section \<open>Reading the inventory list\<close>

text \<open>
  The route calls \<open>cacheInventory(inventory)\<close> with one argument, so the list is the
  identifier of the key and the data is \<open>undefined\<close>; it calls \<open>getCachedInventory()\<close>
  with none, so the key read is \<open>inventory:undefined\<close>.
\<close>

lemma cacheInventory_undefined_data: "cacheInventory r a None = (r, False)"
  by (simp add: cacheInventory_def setEx_def split: sum.split)

lemma getCachedInventory_no_argument:
  "getCachedInventory r Undefined = redis_get r ''inventory:undefined''"
  by (simp add: getCachedInventory_def resolve_def cacheService_scope_def template_def)

text \<open>
  A read finds nothing unless the key \<open>inventory:undefined\<close> is set, and leaves the cache
  as it is; a read with a filter does not look at the cache.
\<close>

lemma get_inventory_miss:
  assumes "cache s ''inventory:undefined'' = None"
  shows "get_inventory eng s wh st search =
           (s, Inr \<lparr>resp_count = Some (length (sort_warehouse_location eng
                                      (filter (matches_query eng s wh st search) (inventories s)))),
                    resp_data = JInventoryList (sort_warehouse_location eng
                                      (filter (matches_query eng s wh st search) (inventories s))),
                    resp_cached = False\<rparr>)"
  using assms
  by (simp add: get_inventory_def Let_def getCachedInventory_no_argument redis_get_def
      cacheInventory_undefined_data)

lemma get_inventory_filtered:
  assumes "truthy_str wh \<or> truthy_str st \<or> truthy_str search"
  shows "get_inventory eng s wh st search =
           (s, Inr \<lparr>resp_count = Some (length (sort_warehouse_location eng
                                      (filter (matches_query eng s wh st search) (inventories s)))),
                    resp_data = JInventoryList (sort_warehouse_location eng
                                      (filter (matches_query eng s wh st search) (inventories s))),
                    resp_cached = False\<rparr>)"
  using assms by (auto simp: get_inventory_def Let_def)

text \<open>
  Claim C7 on the tea store with an empty cache: the unfiltered read misses, answers from
  the store and stores nothing, so that the unfiltered read that follows misses again and
  answers with \<open>cached\<close> unset. The key that is read and the key that is written differ.
\<close>

theorem unfiltered_list_not_cached:
  "get_inventory plain_engine tea_db None None None =
     (tea_db, Inr \<lparr>resp_count = Some 1, resp_data = JInventoryList [tea_inventory], resp_cached = False\<rparr>)
   \<and> snd (get_inventory plain_engine (fst (get_inventory plain_engine tea_db None None None)) None None None)
       = Inr \<lparr>resp_count = Some 1, resp_data = JInventoryList [tea_inventory], resp_cached = False\<rparr>
   \<and> ''inventory:'' @ template Undefined = ''inventory:undefined''
   \<and> ''inventory:'' @ template (Array (map (doc_toString plain_engine) [tea_inventory]))
       = ''inventory:[object Object]''"
proof -
  have c: "cache tea_db ''inventory:undefined'' = None" by (simp add: tea_db_def)
  have m: "filter (matches_query plain_engine tea_db None None None) (inventories tea_db) = [tea_inventory]"
    by (simp add: matches_query_def truthy_str_def tea_db_def)
  have a: "get_inventory plain_engine tea_db None None None =
     (tea_db, Inr \<lparr>resp_count = Some 1, resp_data = JInventoryList [tea_inventory], resp_cached = False\<rparr>)"
    unfolding get_inventory_miss[OF c] m by (simp add: plain_engine_def)
  have t: "template (Array (map (doc_toString plain_engine) [tea_inventory])) = ''[object Object]''"
    by (simp add: template_def plain_engine_def)
  show ?thesis unfolding a fst_conv unfolding a t by (simp add: template_def)
qed

section \<open>The bill service and the creation of a bill\<close>

text \<open>
  The bill service imports \<open>Bill\<close> and \<open>cacheService\<close> only; the cache service imports
  \<open>redisClient\<close>.
\<close>

lemma redisClient_unbound: "resolve billService_scope ''redisClient'' = Inl (ReferenceError ''redisClient'')"
  by (simp add: resolve_def billService_scope_def)

lemma redisClient_bound: "resolve cacheService_scope ''redisClient'' = Inr ()"
  by (simp add: resolve_def cacheService_scope_def)

text \<open>
  Claim C10. The bill service never binds \<open>redisClient\<close>. Hence, for every input, each of
  its twelve cache functions throws inside its \<open>try\<close>, catches the error and returns
  \<open>null\<close> (the four reads) or \<open>false\<close> (the four writes and the four invalidations),
  leaving the cache as it is: a read always misses, an invalidation deletes no key, and the
  caller receives a value, never an exception.
\<close>

theorem bill_cache_functions_fail_silently:
  "resolve billService_scope ''redisClient'' = Inl (ReferenceError ''redisClient'')
   \<and> cacheBillList r userId v = (r, False)
   \<and> getCachedBillList r userId = None
   \<and> cacheBill r billId v = (r, False)
   \<and> getCachedBill r billId = None
   \<and> cacheBillByNumber r billNo v = (r, False)
   \<and> getCachedBillByNumber r billNo = None
   \<and> cacheBillStats r statsKey v = (r, False)
   \<and> getCachedBillStats r statsKey = None
   \<and> invalidateBillListCache r userId = (r, False)
   \<and> invalidateBillCache r billId = (r, False)
   \<and> invalidateBillByNumberCache r billNo = (r, False)
   \<and> invalidateBillStatsCache r = (r, False)"
  by (simp add: redisClient_unbound cacheBillList_def getCachedBillList_def cacheBill_def
      getCachedBill_def cacheBillByNumber_def getCachedBillByNumber_def cacheBillStats_def
      getCachedBillStats_def invalidateBillListCache_def invalidateBillCache_def
      invalidateBillByNumberCache_def invalidateBillStatsCache_def)

lemma foldl_sum: "foldl (\<lambda>sum b. sum + f b) a bs = a + sum_list (map f bs)"
  for a :: real
  by (induction bs arbitrary: a) simp_all

lemma js_add_NaN: "js_add NaN y = NaN"
  by (simp add: js_add_def)

lemma js_add_absent: "js_add (Number a) None = NaN"
  by (simp add: js_add_def)

lemma js_add_present: "js_add (Number a) (Some b) = Number (a + b)"
  by (simp add: js_add_def)

lemma foldl_js_add_NaN: "foldl (\<lambda>sum b. js_add sum (f b)) NaN bs = NaN"
  by (induction bs) (simp_all add: js_add_NaN)

lemma foldl_js_add:
  "foldl (\<lambda>sum b. js_add sum (f b)) (Number a) bs =
     (if list_all (\<lambda>b. f b \<noteq> None) bs
      then Number (a + sum_list (map (\<lambda>b. case f b of None \<Rightarrow> 0 | Some t \<Rightarrow> t) bs))
      else NaN)"
proof (induction bs arbitrary: a)
  case Nil
  then show ?case by simp
next
  case (Cons b bs)
  show ?case
  proof (cases "f b")
    case None
    then show ?thesis by (simp add: js_add_absent foldl_js_add_NaN)
  next
    case (Some t)
    then show ?thesis using Cons.IH[of "a + t"] by (simp add: js_add_present add.assoc)
  qed
qed

lemma revenue_fold:
  "foldl (\<lambda>sum b. js_add sum (total b)) (Number a) bs =
     (if list_all has_total bs then Number (a + sum_list (map total_of bs)) else NaN)"
  using foldl_js_add[of total a bs] by (simp add: has_total_def[abs_def] total_of_def[abs_def])

lemma tax_fold:
  "foldl (\<lambda>sum b. js_add sum (tax b)) (Number a) bs =
     (if list_all has_tax bs then Number (a + sum_list (map tax_of bs)) else NaN)"
  using foldl_js_add[of tax a bs] by (simp add: has_tax_def[abs_def] tax_of_def[abs_def])

lemma breakdown_step_at:
  "breakdown_step m b k =
     (if paymentMethod b = k
      then (case m k of
              None \<Rightarrow> Some (1, js_add (Number 0) (total b))
            | Some (c, t) \<Rightarrow> Some (c + 1, js_add t (total b)))
      else m k)"
  by (auto simp: breakdown_step_def Let_def split: option.split)

lemma breakdown_fold:
  "foldl breakdown_step m bs k =
     (case m k of
        None \<Rightarrow>
          if k \<in> paymentMethod ` set bs
          then Some (length (filter (\<lambda>b. paymentMethod b = k) bs),
                     foldl (\<lambda>sum b. js_add sum (total b)) (Number 0)
                       (filter (\<lambda>b. paymentMethod b = k) bs))
          else None
      | Some (c, t) \<Rightarrow>
          Some (c + length (filter (\<lambda>b. paymentMethod b = k) bs),
                foldl (\<lambda>sum b. js_add sum (total b)) t
                  (filter (\<lambda>b. paymentMethod b = k) bs)))"
proof (induction bs arbitrary: m)
  case Nil
  then show ?case by (simp split: option.split)
next
  case (Cons b bs)
  define m' where "m' = breakdown_step m b"
  have step: "m' k =
     (if paymentMethod b = k
      then (case m k of
              None \<Rightarrow> Some (1, js_add (Number 0) (total b))
            | Some (c, t) \<Rightarrow> Some (c + 1, js_add t (total b)))
      else m k)"
    unfolding m'_def by (rule breakdown_step_at)
  have "foldl breakdown_step m (b # bs) k = foldl breakdown_step m' bs k"
    by (simp add: m'_def)
  also note Cons.IH[of m']
  finally show ?case using step by (auto split: option.split)
qed

lemma breakdown_at:
  "foldl breakdown_step Map.empty bs k =
     (if k \<in> paymentMethod ` set bs
      then Some (length (filter (\<lambda>b. paymentMethod b = k) bs),
                 if list_all has_total (filter (\<lambda>b. paymentMethod b = k) bs)
                 then Number (sum_list (map total_of (filter (\<lambda>b. paymentMethod b = k) bs)))
                 else NaN)
      else None)"
  by (simp add: breakdown_fold revenue_fold)

lemma invalidations_keep_cache:
  "fst (invalidateBillStatsCache (fst (invalidateBillListCache c u))) = c"
  by (simp add: invalidateBillStatsCache_def invalidateBillListCache_def redisClient_unbound)

lemma payment_enum_truthy: "payment_enum x = Some pm \<Longrightarrow> x \<noteq> []"
  by (auto simp: payment_enum_def split: if_splits)

lemma post_bill_bad_request:
  "(\<exists>msg. snd (post_bill now u s body) = Inl (HttpError 400 msg))
     = (bb_items body = None \<or> bb_items body = Some [] \<or> \<not> truthy_str (bb_paymentMethod body))"
  by (auto simp: post_bill_def Let_def Bill_save_def split: option.splits)

lemma created_change:
  "bb_amountReceived body = None \<or> bb_amountReceived body = Some 0 \<or> bb_total body \<noteq> None
   \<Longrightarrow> change (created_bill now u body items pm) \<noteq> NaN"
  by (auto simp: created_bill_def split: option.split)

lemma post_bill_created:
  assumes "bb_items body = Some items" "items \<noteq> []" "bb_paymentMethod body = Some pm_text"
    and "payment_enum pm_text = Some pm"
    and "bb_amountReceived body = None \<or> bb_amountReceived body = Some 0 \<or> bb_total body \<noteq> None"
    and "\<not> list_ex (\<lambda>x. billNumber x = generateBillNumber now) (bills s)"
  shows "post_bill now u s body =
           (s\<lparr>bills := bills s @ [created_bill now u body items pm]\<rparr>,
            Inr (created_bill now u body items pm))"
proof -
  have "truthy_str (bb_paymentMethod body)" "or_str (bb_paymentMethod body) [] = pm_text"
    using assms(3) payment_enum_truthy[OF assms(4)] by (simp_all add: truthy_str_def or_str_def)
  moreover have "billNumber (created_bill now u body items pm) = generateBillNumber now"
    by (simp add: created_bill_def)
  then have "Bill_save (created_bill now u body items pm) (bills s)
      = Some (bills s @ [created_bill now u body items pm])"
    using assms(6) created_change[OF assms(5), of now u items pm] by (simp add: Bill_save_def)
  ultimately show ?thesis
    using assms(1,2,4)
    by (simp add: post_bill_def Let_def created_bill_def[symmetric] invalidations_keep_cache)
qed

lemma post_bill_collision:
  assumes "bb_items body = Some items" "items \<noteq> []" "truthy_str (bb_paymentMethod body)"
    and "list_ex (\<lambda>x. billNumber x = generateBillNumber now) (bills s)"
  shows "post_bill now u s body = (s, Inl (HttpError 500 ''Failed to create bill''))"
  using assms by (simp add: post_bill_def Let_def Bill_save_def split: option.split)

lemma post_bill_no_total:
  assumes "bb_items body = Some items" "items \<noteq> []" "truthy_str (bb_paymentMethod body)"
    and "bb_amountReceived body = Some a" "a \<noteq> 0" "bb_total body = None"
  shows "post_bill now u s body = (s, Inl (HttpError 500 ''Failed to create bill''))"
  using assms by (simp add: post_bill_def Let_def Bill_save_def split: option.split)

lemma post_bill_not_enum:
  assumes "bb_items body = Some items" "items \<noteq> []" "bb_paymentMethod body = Some pm_text"
    and "pm_text \<noteq> []" "payment_enum pm_text = None"
  shows "post_bill now u s body = (s, Inl (HttpError 500 ''Failed to create bill''))"
  using assms by (simp add: post_bill_def Let_def truthy_str_def or_str_def)

lemma post_bill_distinct:
  assumes "distinct (map billNumber (bills s))"
  shows "distinct (map billNumber (bills (fst (post_bill now u s body))))"
  using assms
  by (auto simp: post_bill_def Let_def Bill_save_def list_ex_iff split: option.split if_splits)

lemma decimal_examples: "decimal 1000 = ''1000''" "decimal 2000 = ''2000''"
  by code_simp+

lemma first_bill:
  "post_bill 1000 ''u1'' no_bills cash_body =
     (no_bills\<lparr>bills := [cash_bill 1000]\<rparr>, Inr (cash_bill 1000))"
  using post_bill_created[of cash_body "[tea_line]" "''Cash''" Cash 1000 no_bills "''u1''"]
  by (simp add: cash_body_def tea_line_def payment_enum_def no_bills_def cash_bill_def)

lemma cash_then_untotalled:
  "post_bill 2000 ''u1'' (no_bills\<lparr>bills := [cash_bill 1000]\<rparr>) untotalled_body =
     (no_bills\<lparr>bills := [cash_bill 1000, untotalled_bill 2000]\<rparr>, Inr (untotalled_bill 2000))"
  using post_bill_created[of untotalled_body "[tea_line]" "''Cash''" Cash 2000
      "no_bills\<lparr>bills := [cash_bill 1000]\<rparr>" "''u1''"]
  by (simp add: untotalled_body_def untotalled_bill_def payment_enum_def cash_bill_def
      created_bill_def generateBillNumber_def decimal_examples)

text \<open>
  Claim C9, as amended. \<open>calculateBillStats\<close> is a function of the list of bills alone. The
  number of bills is the length of the list and the total discount is the sum of the
  discounts. The total revenue and the total tax are the sums of the totals and of the taxes
  when every bill has the field, and \<open>NaN\<close> as soon as one bill lacks it; the average is the
  revenue divided by the number of bills, hence \<open>NaN\<close> with it, and 0 for no bill. For each
  payment method that occurs the breakdown has the number of its bills and the sum of their
  totals, \<open>NaN\<close> when one of them has no total, and no entry for a method that does not
  occur. On the empty list all numbers are 0 and the breakdown is empty.
\<close>

theorem bill_stats:
  "totalBills (calculateBillStats bs) = length bs
   \<and> totalRevenue (calculateBillStats bs)
       = (if list_all has_total bs then Number (sum_list (map total_of bs)) else NaN)
   \<and> totalTax (calculateBillStats bs)
       = (if list_all has_tax bs then Number (sum_list (map tax_of bs)) else NaN)
   \<and> totalDiscount (calculateBillStats bs) = sum_list (map discount bs)
   \<and> averageBill (calculateBillStats bs)
       = (if length bs > 0
          then (if list_all has_total bs
                then Number (sum_list (map total_of bs) / real (length bs)) else NaN)
          else Number 0)
   \<and> paymentMethodBreakdown (calculateBillStats bs) k
       = (if k \<in> paymentMethod ` set bs
          then Some (length (filter (\<lambda>b. paymentMethod b = k) bs),
                     if list_all has_total (filter (\<lambda>b. paymentMethod b = k) bs)
                     then Number (sum_list (map total_of (filter (\<lambda>b. paymentMethod b = k) bs)))
                     else NaN)
          else None)
   \<and> calculateBillStats [] =
        \<lparr>totalBills = 0, totalRevenue = Number 0, totalTax = Number 0, totalDiscount = 0,
         averageBill = Number 0, paymentMethodBreakdown = Map.empty\<rparr>"
  by (simp add: calculateBillStats_def Let_def foldl_sum revenue_fold tax_fold breakdown_at
      js_div_def)

text \<open>
  Two bills of total 5 and tax 1 paid in cash: revenue 10, tax 2, average 5, one entry for
  cash. With a bill without a total in the place of the second, the revenue is \<open>NaN\<close>.
\<close>

theorem bill_stats_witness:
  "totalBills (calculateBillStats [cash_bill 1000, cash_bill 2000]) = 2
   \<and> totalRevenue (calculateBillStats [cash_bill 1000, cash_bill 2000]) = Number 10
   \<and> totalTax (calculateBillStats [cash_bill 1000, cash_bill 2000]) = Number 2
   \<and> totalDiscount (calculateBillStats [cash_bill 1000, cash_bill 2000]) = 0
   \<and> averageBill (calculateBillStats [cash_bill 1000, cash_bill 2000]) = Number 5
   \<and> paymentMethodBreakdown (calculateBillStats [cash_bill 1000, cash_bill 2000]) Cash
       = Some (2, Number 10)
   \<and> paymentMethodBreakdown (calculateBillStats [cash_bill 1000, cash_bill 2000]) Card = None
   \<and> totalRevenue (calculateBillStats [cash_bill 1000, untotalled_bill 2000]) = NaN"
  using bill_stats[of "[cash_bill 1000, cash_bill 2000]" Cash]
    bill_stats[of "[cash_bill 1000, cash_bill 2000]" Card]
    bill_stats[of "[cash_bill 1000, untotalled_bill 2000]" Cash]
  by (simp add: cash_bill_def untotalled_bill_def created_bill_def cash_body_def
      untotalled_body_def has_total_def has_tax_def total_of_def tax_of_def)

text \<open>
  Claim C9 as stated fails: the route stores a bill whose body has the items and the
  payment method only, and the statistics of that bill and a bill of total 5 have \<open>NaN\<close>
  for the revenue, the tax, the average and the total of the cash entry, where the sums of
  the fields that are present would be 5 and 1.
\<close>

theorem absent_total_counterexample:
  "post_bill 2000 ''u1'' (no_bills\<lparr>bills := [cash_bill 1000]\<rparr>) untotalled_body =
     (no_bills\<lparr>bills := [cash_bill 1000, untotalled_bill 2000]\<rparr>, Inr (untotalled_bill 2000))
   \<and> total (cash_bill 1000) = Some 5 \<and> total (untotalled_bill 2000) = None
   \<and> totalRevenue (calculateBillStats [cash_bill 1000, untotalled_bill 2000]) = NaN
   \<and> totalTax (calculateBillStats [cash_bill 1000, untotalled_bill 2000]) = NaN
   \<and> averageBill (calculateBillStats [cash_bill 1000, untotalled_bill 2000]) = NaN
   \<and> paymentMethodBreakdown (calculateBillStats [cash_bill 1000, untotalled_bill 2000]) Cash
       = Some (2, NaN)"
proof -
  have "total (cash_bill 1000) = Some 5" "total (untotalled_bill 2000) = None"
    "tax (cash_bill 1000) = Some 1" "tax (untotalled_bill 2000) = None"
    "paymentMethod (cash_bill 1000) = Cash" "paymentMethod (untotalled_bill 2000) = Cash"
    by (simp_all add: cash_bill_def untotalled_bill_def created_bill_def cash_body_def
        untotalled_body_def)
  then show ?thesis
    by (simp add: cash_then_untotalled calculateBillStats_def Let_def js_add_def js_div_def
        breakdown_step_def)
qed

text \<open>
  Claim C8, as amended. \<open>createBill\<close> answers with the validation error 400 exactly when
  the items are missing or empty or the payment method is absent. Otherwise, for a payment
  method of the schema, a total that is supplied whenever an amount other than 0 is
  received, and a generated number that no stored bill has, it adds one bill to the store,
  with payment status \<open>Completed\<close>, the number \<open>BILL-\<close> followed by the time in
  milliseconds, and the change \<open>amountReceived - total\<close> when an amount other than 0 is
  received (0 when none is). The request fails with status 500 and the store is unchanged
  when a stored bill has the generated number (there is no retry and no overwrite), when
  an amount other than 0 is received and the total is absent (the change is \<open>NaN\<close>), and
  when the payment method is not one of the schema. The numbers of the stored bills stay
  distinct.
\<close>

theorem create_bill:
  "((\<exists>msg. snd (post_bill now u s body) = Inl (HttpError 400 msg))
      = (bb_items body = None \<or> bb_items body = Some [] \<or> \<not> truthy_str (bb_paymentMethod body)))
   \<and> (bb_items body = Some items \<and> items \<noteq> [] \<and> bb_paymentMethod body = Some pm_text
       \<and> payment_enum pm_text = Some pm
       \<and> (bb_amountReceived body = None \<or> bb_amountReceived body = Some 0
          \<or> bb_total body \<noteq> None)
       \<and> \<not> list_ex (\<lambda>x. billNumber x = generateBillNumber now) (bills s) \<longrightarrow>
       post_bill now u s body =
         (s\<lparr>bills := bills s @ [created_bill now u body items pm]\<rparr>,
          Inr (created_bill now u body items pm)))
   \<and> paymentStatus (created_bill now u body items pm) = Completed
   \<and> billNumber (created_bill now u body items pm) = generateBillNumber now
   \<and> (bb_amountReceived body = Some a \<and> a \<noteq> 0 \<and> bb_total body = Some t \<longrightarrow>
       change (created_bill now u body items pm) = Number (a - t))
   \<and> (bb_amountReceived body = None \<longrightarrow>
       change (created_bill now u body items pm) = Number 0)
   \<and> (bb_items body = Some items \<and> items \<noteq> [] \<and> truthy_str (bb_paymentMethod body)
       \<and> list_ex (\<lambda>x. billNumber x = generateBillNumber now) (bills s) \<longrightarrow>
       post_bill now u s body = (s, Inl (HttpError 500 ''Failed to create bill'')))
   \<and> (bb_items body = Some items \<and> items \<noteq> [] \<and> truthy_str (bb_paymentMethod body)
       \<and> bb_amountReceived body = Some a \<and> a \<noteq> 0 \<and> bb_total body = None \<longrightarrow>
       post_bill now u s body = (s, Inl (HttpError 500 ''Failed to create bill'')))
   \<and> (bb_items body = Some items \<and> items \<noteq> [] \<and> bb_paymentMethod body = Some pm_text
       \<and> pm_text \<noteq> [] \<and> payment_enum pm_text = None \<longrightarrow>
       post_bill now u s body = (s, Inl (HttpError 500 ''Failed to create bill'')))
   \<and> (distinct (map billNumber (bills s)) \<longrightarrow>
       distinct (map billNumber (bills (fst (post_bill now u s body)))))"
proof (intro conjI impI)
  show "(\<exists>msg. snd (post_bill now u s body) = Inl (HttpError 400 msg))
      = (bb_items body = None \<or> bb_items body = Some [] \<or> \<not> truthy_str (bb_paymentMethod body))"
    by (rule post_bill_bad_request)
next
  assume "bb_items body = Some items \<and> items \<noteq> [] \<and> bb_paymentMethod body = Some pm_text
       \<and> payment_enum pm_text = Some pm
       \<and> (bb_amountReceived body = None \<or> bb_amountReceived body = Some 0
          \<or> bb_total body \<noteq> None)
       \<and> \<not> list_ex (\<lambda>x. billNumber x = generateBillNumber now) (bills s)"
  then show "post_bill now u s body =
         (s\<lparr>bills := bills s @ [created_bill now u body items pm]\<rparr>,
          Inr (created_bill now u body items pm))"
    using post_bill_created[of body items pm_text pm now s u] by blast
next
  assume "bb_items body = Some items \<and> items \<noteq> [] \<and> truthy_str (bb_paymentMethod body)
       \<and> list_ex (\<lambda>x. billNumber x = generateBillNumber now) (bills s)"
  then show "post_bill now u s body = (s, Inl (HttpError 500 ''Failed to create bill''))"
    using post_bill_collision by blast
next
  assume "bb_items body = Some items \<and> items \<noteq> [] \<and> truthy_str (bb_paymentMethod body)
       \<and> bb_amountReceived body = Some a \<and> a \<noteq> 0 \<and> bb_total body = None"
  then show "post_bill now u s body = (s, Inl (HttpError 500 ''Failed to create bill''))"
    using post_bill_no_total by blast
next
  assume "bb_items body = Some items \<and> items \<noteq> [] \<and> bb_paymentMethod body = Some pm_text
       \<and> pm_text \<noteq> [] \<and> payment_enum pm_text = None"
  then show "post_bill now u s body = (s, Inl (HttpError 500 ''Failed to create bill''))"
    using post_bill_not_enum by blast
next
  assume "distinct (map billNumber (bills s))"
  then show "distinct (map billNumber (bills (fst (post_bill now u s body))))"
    by (rule post_bill_distinct)
qed (simp_all add: created_bill_def)

text \<open>
  A bill of total 5 paid with 10 in cash is stored with change 5; the same request at the
  same millisecond is then refused and the store keeps its one bill. Without the total, or
  paid by \<open>Cheque\<close>, the request is refused and nothing is stored.
\<close>

theorem create_bill_witness:
  "post_bill 1000 ''u1'' no_bills cash_body =
     (no_bills\<lparr>bills := [cash_bill 1000]\<rparr>, Inr (cash_bill 1000))
   \<and> change (cash_bill 1000) = Number 5
   \<and> post_bill 1000 ''u1'' (no_bills\<lparr>bills := [cash_bill 1000]\<rparr>) cash_body
       = (no_bills\<lparr>bills := [cash_bill 1000]\<rparr>, Inl (HttpError 500 ''Failed to create bill''))
   \<and> distinct (map billNumber (bills (fst (post_bill 1000 ''u1'' no_bills cash_body))))
   \<and> change (created_bill 1000 ''u1'' (cash_body\<lparr>bb_amountReceived := None\<rparr>) [tea_line] Cash)
       = Number 0
   \<and> post_bill 1000 ''u1'' no_bills (cash_body\<lparr>bb_total := None\<rparr>)
       = (no_bills, Inl (HttpError 500 ''Failed to create bill''))
   \<and> post_bill 1000 ''u1'' no_bills (cash_body\<lparr>bb_paymentMethod := Some ''Cheque''\<rparr>)
       = (no_bills, Inl (HttpError 500 ''Failed to create bill''))"
proof -
  let ?b = "created_bill 1000 ''u1'' cash_body [tea_line] Cash"
  let ?s1 = "no_bills\<lparr>bills := [?b]\<rparr>"
  have h2: "bb_items cash_body = Some [tea_line] \<and> [tea_line] \<noteq> []
       \<and> bb_paymentMethod cash_body = Some ''Cash'' \<and> payment_enum ''Cash'' = Some Cash
       \<and> (bb_amountReceived cash_body = None \<or> bb_amountReceived cash_body = Some 0
          \<or> bb_total cash_body \<noteq> None)
       \<and> \<not> list_ex (\<lambda>x. billNumber x = generateBillNumber 1000) (bills no_bills)"
    by (simp add: cash_body_def tea_line_def payment_enum_def no_bills_def)
  have h5: "bb_amountReceived cash_body = Some 10 \<and> (10::real) \<noteq> 0 \<and> bb_total cash_body = Some 5"
    by (simp add: cash_body_def)
  have h7: "bb_items cash_body = Some [tea_line] \<and> [tea_line] \<noteq> []
       \<and> truthy_str (bb_paymentMethod cash_body)
       \<and> list_ex (\<lambda>x. billNumber x = generateBillNumber 1000) (bills ?s1)"
    by (simp add: cash_body_def tea_line_def truthy_str_def created_bill_def)
  have h10: "distinct (map billNumber (bills no_bills))" by (simp add: no_bills_def)
  note t = create_bill[where now = 1000 and u = "''u1''" and body = cash_body
      and items = "[tea_line]" and pm_text = "''Cash''" and pm = Cash and a = 10 and t = 5]
  have "post_bill 1000 ''u1'' no_bills cash_body = (no_bills\<lparr>bills := bills no_bills @ [?b]\<rparr>, Inr ?b)"
    by (rule mp[OF t[where s = no_bills, THEN conjunct2, THEN conjunct1] h2])
  then have c2: "post_bill 1000 ''u1'' no_bills cash_body = (?s1, Inr ?b)"
    by (simp add: no_bills_def)
  have c5: "change ?b = Number (10 - 5)"
    by (rule mp[OF t[where s = no_bills, THEN conjunct2, THEN conjunct2, THEN conjunct2,
          THEN conjunct2, THEN conjunct1] h5])
  have c7: "post_bill 1000 ''u1'' ?s1 cash_body = (?s1, Inl (HttpError 500 ''Failed to create bill''))"
    by (rule mp[OF t[where s = ?s1, THEN conjunct2, THEN conjunct2, THEN conjunct2,
          THEN conjunct2, THEN conjunct2, THEN conjunct2, THEN conjunct1] h7])
  have c10: "distinct (map billNumber (bills (fst (post_bill 1000 ''u1'' no_bills cash_body))))"
    by (rule mp[OF t[where s = no_bills, THEN conjunct2, THEN conjunct2, THEN conjunct2,
          THEN conjunct2, THEN conjunct2, THEN conjunct2, THEN conjunct2, THEN conjunct2,
          THEN conjunct2] h10])
  have h6: "bb_amountReceived (cash_body\<lparr>bb_amountReceived := None\<rparr>) = None" by simp
  have c6: "change (created_bill 1000 ''u1'' (cash_body\<lparr>bb_amountReceived := None\<rparr>) [tea_line] Cash)
      = Number 0"
    by (rule mp[OF create_bill[where now = 1000 and u = "''u1''"
          and body = "cash_body\<lparr>bb_amountReceived := None\<rparr>" and items = "[tea_line]" and pm = Cash,
          THEN conjunct2, THEN conjunct2, THEN conjunct2, THEN conjunct2, THEN conjunct2,
          THEN conjunct1] h6])
  have h8: "bb_items (cash_body\<lparr>bb_total := None\<rparr>) = Some [tea_line] \<and> [tea_line] \<noteq> []
       \<and> truthy_str (bb_paymentMethod (cash_body\<lparr>bb_total := None\<rparr>))
       \<and> bb_amountReceived (cash_body\<lparr>bb_total := None\<rparr>) = Some 10 \<and> (10::real) \<noteq> 0
       \<and> bb_total (cash_body\<lparr>bb_total := None\<rparr>) = None"
    by (simp add: cash_body_def truthy_str_def)
  have c8: "post_bill 1000 ''u1'' no_bills (cash_body\<lparr>bb_total := None\<rparr>)
       = (no_bills, Inl (HttpError 500 ''Failed to create bill''))"
    by (rule mp[OF create_bill[where now = 1000 and u = "''u1''" and s = no_bills
          and body = "cash_body\<lparr>bb_total := None\<rparr>" and items = "[tea_line]" and a = 10,
          THEN conjunct2, THEN conjunct2, THEN conjunct2, THEN conjunct2, THEN conjunct2,
          THEN conjunct2, THEN conjunct2, THEN conjunct1] h8])
  have h9: "bb_items (cash_body\<lparr>bb_paymentMethod := Some ''Cheque''\<rparr>) = Some [tea_line]
       \<and> [tea_line] \<noteq> []
       \<and> bb_paymentMethod (cash_body\<lparr>bb_paymentMethod := Some ''Cheque''\<rparr>) = Some ''Cheque''
       \<and> ''Cheque'' \<noteq> [] \<and> payment_enum ''Cheque'' = None"
    by (simp add: cash_body_def payment_enum_def)
  have c9: "post_bill 1000 ''u1'' no_bills (cash_body\<lparr>bb_paymentMethod := Some ''Cheque''\<rparr>)
       = (no_bills, Inl (HttpError 500 ''Failed to create bill''))"
    by (rule mp[OF create_bill[where now = 1000 and u = "''u1''" and s = no_bills
          and body = "cash_body\<lparr>bb_paymentMethod := Some ''Cheque''\<rparr>" and items = "[tea_line]"
          and pm_text = "''Cheque''",
          THEN conjunct2, THEN conjunct2, THEN conjunct2, THEN conjunct2, THEN conjunct2,
          THEN conjunct2, THEN conjunct2, THEN conjunct2, THEN conjunct1] h9])
  from c2 c5 c7 c10 c6 c8 c9 show ?thesis by (simp add: cash_bill_def)
qed

text \<open>
  Claim C8 as stated fails: a second valid request at the same millisecond generates the
  number of the first bill, and is answered with status 500 instead of a bill with a fresh
  number.
\<close>

theorem bill_number_collision_counterexample:
  "post_bill 1000 ''u1'' (fst (post_bill 1000 ''u1'' no_bills cash_body)) cash_body
     = (fst (post_bill 1000 ''u1'' no_bills cash_body), Inl (HttpError 500 ''Failed to create bill''))
   \<and> map billNumber (bills (fst (post_bill 1000 ''u1'' no_bills cash_body))) = [generateBillNumber 1000]
   \<and> bb_items cash_body \<noteq> None \<and> bb_items cash_body \<noteq> Some []
   \<and> truthy_str (bb_paymentMethod cash_body)"
proof -
  have "post_bill 1000 ''u1'' (no_bills\<lparr>bills := [cash_bill 1000]\<rparr>) cash_body
       = (no_bills\<lparr>bills := [cash_bill 1000]\<rparr>, Inl (HttpError 500 ''Failed to create bill''))"
    by (rule post_bill_collision[of cash_body "[tea_line]"])
       (simp_all add: cash_body_def tea_line_def truthy_str_def created_bill_def cash_bill_def)
  then show ?thesis unfolding first_bill fst_conv
    by (simp add: created_bill_def cash_body_def truthy_str_def cash_bill_def)
qed

section \<open>Identifiers stay distinct\<close>

text \<open>
  The identifiers of the inventory collection are distinct in the empty store and stay so
  under every request, as the theorems on restocking and on deduction assume.
\<close>

lemma post_inventory_distinct:
  "ids_distinct s \<Longrightarrow> ids_distinct (fst (post_inventory now s body))"
  unfolding post_inventory_def post_inventory_persist_def Let_def inline_status ids_distinct_def
  by (auto split: option.split sum.split dest: Inventory_save_ids)

lemma post_register_barcode_distinct:
  "ids_distinct s \<Longrightarrow> ids_distinct (fst (post_register_barcode now s body))"
  unfolding post_register_barcode_def register_persist_def Let_def inline_status ids_distinct_def
  by (auto split: option.split prod.split dest: Inventory_save_ids)

lemma findByIdAndUpdate_ids:
  "Inventory_findByIdAndUpdate now i body invs = Some (r0, invs1) \<Longrightarrow> map inv_id invs1 = map inv_id invs"
  by (auto simp: Inventory_findByIdAndUpdate_def Inventory_findById_def Let_def
           split: option.splits dest!: find_Some_id)

lemma put_inventory_distinct:
  "ids_distinct s \<Longrightarrow> ids_distinct (fst (put_inventory now s i body))"
  unfolding put_inventory_def Let_def inline_status ids_distinct_def
  by (auto simp: put_inventory_mirror_inv split: option.split
           dest!: findByIdAndUpdate_ids dest: Inventory_save_ids)

lemma put_adjust_quantity_distinct:
  "ids_distinct s \<Longrightarrow> ids_distinct (fst (put_adjust_quantity now s i q))"
  unfolding put_adjust_quantity_def Let_def inline_status ids_distinct_def
  by (auto simp: adjust_mirror_inv split: option.split dest: Inventory_save_ids)

lemma deduct_loop_distinct:
  "ids_distinct (fst acc) \<Longrightarrow> ids_distinct (loop_store (deduct_loop now items acc))"
proof (induction now items acc rule: deduct_loop.induct)
  case (1 now acc)
  then show ?case by (simp add: loop_store_def)
next
  case (2 now rest acc)
  then show ?case by (simp add: loop_store_def)
next
  case (3 now item rest acc)
  obtain s ds es where acc: "acc = (s, ds, es)" by (cases acc)
  have "ids_distinct (fst (deduct_item now item acc))"
    using "3.prems" deduct_item_distinct[of s now item ds es] by (simp add: acc)
  from "3.IH"[OF this] show ?case by simp
qed

lemma post_deduct_bill_distinct:
  "ids_distinct s \<Longrightarrow> ids_distinct (fst (post_deduct_bill now s items))"
proof (cases items)
  case None
  assume "ids_distinct s"
  with None show ?thesis by (simp add: post_deduct_bill_def)
next
  case (Some xs)
  assume d: "ids_distinct s"
  show ?thesis unfolding Some post_deduct_bill_store
    using deduct_loop_distinct[of "(s, [], [])" now xs] d by simp
qed

lemma handle_distinct: "ids_distinct s \<Longrightarrow> ids_distinct (handle s tr)"
proof -
  assume d: "ids_distinct s"
  obtain now req where tr: "tr = (now, req)" by (cases tr)
  show ?thesis unfolding tr handle_def
    by (cases req)
       (simp_all add: d post_inventory_distinct post_register_barcode_distinct put_inventory_distinct
          put_adjust_quantity_distinct post_deduct_bill_distinct)
qed

lemma run_distinct: "ids_distinct s \<Longrightarrow> ids_distinct (run s trs)"
  unfolding run_def
  by (induction trs arbitrary: s) (simp_all add: handle_distinct)

lemma reachable_distinct: "ids_distinct (run empty_db trs)"
  by (rule run_distinct) (simp add: ids_distinct_def empty_db_def)

end
